theory Spec2Isabelle
  imports Complex_Main "HOL-Library.AList"
begin

section \<open>Values of the JavaScript program\<close>

text \<open>
  Request bodies, query strings and response bodies are JSON values. An object is an
  association list in key order. \<open>truthy\<close> is JavaScript's boolean coercion, which the
  source applies in \<open>if (x)\<close>, \<open>!x\<close> and \<open>x || y\<close>.
\<close>

datatype json =
    JNull
  | JBool bool
  | JNum real
  | JStr string
  | JArr "json list"
  | JObj "(string \<times> json) list"

fun truthy :: "json \<Rightarrow> bool" where
  "truthy JNull = False"
| "truthy (JBool b) = b"
| "truthy (JNum n) = (n \<noteq> 0)"
| "truthy (JStr s) = (s \<noteq> [])"
| "truthy (JArr xs) = True"
| "truthy (JObj kvs) = True"

text \<open>\<open>obj.key\<close>: the value of a property, \<open>None\<close> for JavaScript's \<open>undefined\<close>.\<close>

fun get_prop :: "json \<Rightarrow> string \<Rightarrow> json option" where
  "get_prop (JObj kvs) k = map_of kvs k"
| "get_prop j k = None"

text \<open>\<open>String.prototype.startsWith\<close> and \<open>String.prototype.includes\<close>.\<close>

definition startsWith :: "string \<Rightarrow> string \<Rightarrow> bool" where
  "startsWith s p = (take (length p) s = p)"

fun js_includes :: "string \<Rightarrow> string \<Rightarrow> bool" where
  "js_includes [] sub = (sub = [])"
| "js_includes (c # cs) sub = (startsWith (c # cs) sub \<or> js_includes cs sub)"

section \<open>The store\<close>

text \<open>
  The tables of \<open>schema.sql\<close> that the modelled routes read or write, one record per
  row with the columns those routes use. A column that may be NULL is an option.
\<close>

record tenant_row =
  tenant_id :: string
  tenant_name :: string
  tenant_status :: string
  tenant_data_region :: string
  tenant_hosting_type :: string

record user_row =
  user_id :: string
  user_tenant_id :: string
  user_email :: string
  user_role :: string
  user_first_name :: string
  user_last_name :: string
  user_status :: string

record vendor_row =
  vendor_id :: string
  vendor_tenant_id :: string
  vendor_name :: string
  vendor_status :: string

record vendor_master_row =
  vm_vendor_id :: string
  vm_vendor_name :: string
  vm_status :: string
  vm_risk_score :: real
  vm_risk_level :: string

text \<open>
  \<open>purchase_orders\<close>. The columns filled from the request body hold the value the
  client sent (\<open>None\<close> when the body has no such property). \<open>erp_sync_status\<close> has the
  default \<open>'pending'\<close>; \<open>erp_po_id\<close> and \<open>erp_sync_error\<close> start NULL.
\<close>

record po_row =
  po_id :: string
  po_tenant_id :: string
  po_number :: string
  po_contract_id :: "json option"
  po_vendor_id :: "json option"
  po_status :: string
  po_total_amount :: "json option"
  po_currency :: "json option"
  po_line_items :: "json option"
  po_erp_system :: "json option"
  po_erp_po_id :: "string option"
  po_erp_sync_status :: "string option"
  po_erp_sync_error :: "string option"
  po_created_by :: string

record sync_log_row =
  sl_integration_id :: "string option"
  sl_sync_type :: string
  sl_direction :: string
  sl_status :: string
  sl_records_processed :: nat

record penalty_row =
  pen_id :: string
  pen_tenant_id :: string
  pen_vendor_id :: "json option"
  pen_contract_id :: "json option"
  pen_penalty_type :: "json option"
  pen_amount :: "json option"
  pen_currency :: json
  pen_reason :: "json option"
  pen_ai_suggested :: bool
  pen_ai_rationale :: string
  pen_status :: string
  pen_approved_by :: "string option"
  pen_created_by :: string

record assessment_row =
  ra_id :: string
  ra_tenant_id :: string
  ra_vendor_id :: "json option"
  ra_risk_score :: real
  ra_risk_level :: string
  ra_provider :: "json option"
  ra_provider_data :: json

record alert_row =
  alert_tenant_id :: string
  alert_vendor_id :: "json option"
  alert_type :: string
  alert_severity :: string
  alert_message :: string
  alert_source :: string
  alert_status :: string

record rfp_row =
  rfp_id :: string
  rfp_tenant_id :: string
  rfp_owner_id :: string
  rfp_status :: string

record rfp_response_row =
  rr_id :: string
  rr_rfp_id :: string
  rr_vendor_id :: string
  rr_status :: string

record evaluation_row =
  es_id :: string
  es_response_id :: string
  es_criterion :: string
  es_score :: json

record override_row =
  ov_id :: string
  ov_evaluation_id :: string
  ov_overridden_by :: string
  ov_original_score :: json
  ov_new_score :: "json option"
  ov_rationale :: "json option"
  ov_override_reason :: "json option"

record contract_row =
  c_id :: string
  c_tenant_id :: string
  c_contract_number :: string
  c_vendor_id :: string
  c_contract_type :: string
  c_content :: "string option"
  c_status :: string

record clause_row =
  cl_contract_id :: string
  cl_clause_number :: "string option"
  cl_title :: string
  cl_content :: string

record version_row =
  cv_contract_id :: string
  cv_version_number :: int
  cv_content :: string
  cv_changed_by :: string
  cv_change_summary :: "string option"

record audit_row =
  al_tenant_id :: string
  al_user_id :: "string option"
  al_action :: string
  al_resource_type :: string
  al_resource_id :: json
  al_module :: string
  al_details :: json
  al_ip_address :: string
  al_user_agent :: "string option"
  al_timestamp :: nat

section \<open>Requests, responses and the world\<close>

text \<open>\<open>req.user\<close>, as \<open>authenticate\<close> attaches it.\<close>

record req_user =
  ru_id :: string
  ru_email :: string
  ru_tenant_id :: string
  ru_tenant_name :: string
  ru_role :: string
  ru_first_name :: string
  ru_last_name :: string
  ru_data_region :: string

record request =
  req_method :: string
  path :: string
  originalUrl :: string
  route_path :: "string option"
  authorization :: "string option"
  params_id :: "string option"
  query_params :: json
  body :: "json option"
  ip :: string
  user_agent :: "string option"
  user :: "req_user option"
  tenantId :: "string option"

record response =
  status :: nat
  payload :: json

text \<open>
  What a request can change: the tables, the lines written with \<open>console.error\<close>, and
  the trace of statements sent to the store and of calls leaving the process, in the
  order they happen.
\<close>

datatype event =
    Query string
  | ErpSync string string
  | Sleep nat

record world =
  tenants :: "tenant_row list"
  users :: "user_row list"
  vendors :: "vendor_row list"
  vendor_master_consolidated :: "vendor_master_row list"
  purchase_orders :: "po_row list"
  integration_sync_logs :: "sync_log_row list"
  penalties :: "penalty_row list"
  vendor_risk_assessments :: "assessment_row list"
  risk_alerts :: "alert_row list"
  rfps :: "rfp_row list"
  rfp_responses :: "rfp_response_row list"
  ai_evaluation_scores :: "evaluation_row list"
  evaluation_overrides :: "override_row list"
  contracts :: "contract_row list"
  contract_clauses :: "clause_row list"
  contract_versions :: "version_row list"
  audit_logs :: "audit_row list"
  console :: "string list"
  trace :: "event list"

definition emit :: "event \<Rightarrow> world \<Rightarrow> world" where
  "emit e w = w\<lparr>trace := trace w @ [e]\<rparr>"

definition console_error :: "string \<Rightarrow> world \<Rightarrow> world" where
  "console_error line w = w\<lparr>console := console w @ [line]\<rparr>"

text \<open>
  A middleware either answers the request itself or calls \<open>next()\<close> with the request
  as it left it.
\<close>

datatype 'a step = Next 'a | Respond response

definition reject :: "nat \<Rightarrow> string \<Rightarrow> string \<Rightarrow> response" where
  "reject st msg code =
     \<lparr>status = st, payload = JObj [(''error'', JStr msg), (''code'', JStr code)]\<rparr>"

section \<open>Credential verifier (middleware/auth.js, authenticate)\<close>

text \<open>
  \<open>jwt.verify(token, process.env.JWT_SECRET)\<close> belongs to the jsonwebtoken library. It is
  a parameter of the model: a function from the token to the decoded payload or to the
  name of the error it throws.
\<close>

record jwt_payload =
  userId :: "string option"

datatype jwt_outcome =
    Verified jwt_payload
  | JsonWebTokenError
  | TokenExpiredError
  | NotBeforeError

definition active_user_rows :: "world \<Rightarrow> string option \<Rightarrow> (user_row \<times> tenant_row) list" where
  "active_user_rows w uid =
     concat (map (\<lambda>u. map (\<lambda>t. (u, t))
       (filter (\<lambda>t. user_tenant_id u = tenant_id t \<and> Some (user_id u) = uid
                    \<and> user_status u = ''active'' \<and> tenant_status t = ''active'') (tenants w)))
       (users w))"

definition authenticate ::
  "(string \<Rightarrow> jwt_outcome) \<Rightarrow> request \<Rightarrow> world \<Rightarrow> request step \<times> world" where
  "authenticate verify req w =
     (case authorization req of
        None \<Rightarrow> (Respond (reject 401 ''Authentication required'' ''AUTH_REQUIRED''), w)
      | Some authHeader \<Rightarrow>
          if authHeader = [] \<or> \<not> startsWith authHeader ''Bearer ''
          then (Respond (reject 401 ''Authentication required'' ''AUTH_REQUIRED''), w)
          else
            (case verify (drop 7 authHeader) of
               JsonWebTokenError \<Rightarrow>
                 (Respond (reject 401 ''Invalid or expired token'' ''INVALID_TOKEN''), w)
             | TokenExpiredError \<Rightarrow>
                 (Respond (reject 401 ''Invalid or expired token'' ''TOKEN_EXPIRED''), w)
             | NotBeforeError \<Rightarrow>
                 (Respond (reject 500 ''Authentication failed'' ''AUTH_ERROR''),
                  console_error ''Auth middleware error: NotBeforeError'' w)
             | Verified decoded \<Rightarrow>
                 (let w1 = emit (Query ''SELECT users JOIN tenants'') w in
                  case active_user_rows w (userId decoded) of
                    [] \<Rightarrow> (Respond (reject 401 ''User not found or inactive'' ''USER_NOT_FOUND''), w1)
                  | (u, t) # rest \<Rightarrow>
                      (Next (req\<lparr>user := Some
                         \<lparr>ru_id = user_id u, ru_email = user_email u,
                          ru_tenant_id = tenant_id t, ru_tenant_name = tenant_name t,
                          ru_role = user_role u, ru_first_name = user_first_name u,
                          ru_last_name = user_last_name u,
                          ru_data_region = tenant_data_region t\<rparr>\<rparr>), w1))))"

section \<open>Authorization gate (middleware/auth.js, authorize)\<close>

definition authorize :: "string list \<Rightarrow> request \<Rightarrow> request step" where
  "authorize allowedRoles req =
     (case user req of
        None \<Rightarrow> Respond (reject 401 ''Authentication required'' ''AUTH_REQUIRED'')
      | Some u \<Rightarrow>
          if ru_role u \<notin> set allowedRoles
          then Respond \<lparr>status = 403, payload = JObj
                 [(''error'', JStr ''Insufficient permissions''),
                  (''code'', JStr ''PERMISSION_DENIED''),
                  (''required'', JArr (map JStr allowedRoles)),
                  (''current'', JStr (ru_role u))]\<rparr>
          else Next req)"

section \<open>Tenant resolver (middleware/tenantMiddleware.js)\<close>

text \<open>
  \<open>node_env\<close> and \<open>default_tenant_id\<close> are \<open>process.env.NODE_ENV\<close> and
  \<open>process.env.DEFAULT_TENANT_ID\<close>. \<open>req.user\<close> has no property \<open>tenantId\<close>, so
  \<open>req.user?.tenant_id || req.user?.tenantId\<close> is the tenant id of the user when it is a
  non-empty string and undefined otherwise.
\<close>

definition tenantMiddleware ::
  "string option \<Rightarrow> string option \<Rightarrow> request \<Rightarrow> world \<Rightarrow> request step \<times> world" where
  "tenantMiddleware node_env default_tenant_id req w =
     (if startsWith (originalUrl req) ''/api/v1/auth'' then (Next req, w)
      else
        (let fromUser = (case user req of
                           None \<Rightarrow> None
                         | Some u \<Rightarrow> if ru_tenant_id u \<noteq> [] then Some (ru_tenant_id u) else None);
             tid = (if fromUser = None \<and> node_env = Some ''development''
                    then default_tenant_id else fromUser)
         in case tid of
              None \<Rightarrow> (Respond (reject 401 ''Tenant identification required'' ''TENANT_REQUIRED''), w)
            | Some t \<Rightarrow>
                if t = [] then
                  (Respond (reject 401 ''Tenant identification required'' ''TENANT_REQUIRED''), w)
                else
                  (let w1 = emit (Query ''SELECT tenants'') w in
                   case filter (\<lambda>r. tenant_id r = t) (tenants w) of
                     [] \<Rightarrow> (Respond (reject 404 ''Tenant not found'' ''TENANT_NOT_FOUND''), w1)
                   | tenant # rest \<Rightarrow>
                       if tenant_status tenant \<noteq> ''active''
                       then (Respond (reject 403 ''Tenant is not active'' ''TENANT_INACTIVE''), w1)
                       else (Next (req\<lparr>tenantId := Some (tenant_id tenant)\<rparr>), w1))))"

section \<open>Errors and the global error handler (middleware/errorHandler.js)\<close>

text \<open>
  A thrown JavaScript error with the properties \<open>errorHandler\<close> reads. \<open>err_status\<close> is
  \<open>err.statusCode || err.status\<close>.
\<close>

record js_error =
  err_name :: string
  err_message :: string
  err_code :: "string option"
  err_detail :: "string option"
  err_errors :: "json option"
  err_status :: "nat option"
  err_stack :: string

definition opt_str :: "string option \<Rightarrow> json" where
  "opt_str s = (case s of None \<Rightarrow> JNull | Some x \<Rightarrow> JStr x)"

definition errorHandler :: "string option \<Rightarrow> js_error \<Rightarrow> response" where
  "errorHandler node_env err =
     (if err_code err = Some ''23505'' then
        \<lparr>status = 409, payload = JObj [(''error'', JStr ''Resource already exists''),
           (''code'', JStr ''DUPLICATE_RESOURCE''), (''details'', opt_str (err_detail err))]\<rparr>
      else if err_code err = Some ''23503'' then
        \<lparr>status = 400, payload = JObj [(''error'', JStr ''Invalid reference''),
           (''code'', JStr ''FOREIGN_KEY_VIOLATION''), (''details'', opt_str (err_detail err))]\<rparr>
      else if err_name err = ''ValidationError'' then
        \<lparr>status = 400, payload = JObj [(''error'', JStr ''Validation failed''),
           (''code'', JStr ''VALIDATION_ERROR''),
           (''details'', (case err_errors err of
                            Some e \<Rightarrow> if truthy e then e else JStr (err_message err)
                          | None \<Rightarrow> JStr (err_message err)))]\<rparr>
      else if err_name err = ''JsonWebTokenError'' then
        reject 401 ''Invalid token'' ''INVALID_TOKEN''
      else if err_name err = ''TokenExpiredError'' then
        reject 401 ''Token expired'' ''TOKEN_EXPIRED''
      else if err_code err = Some ''PERMISSION_DENIED'' \<or> js_includes (err_message err) ''permission'' then
        \<lparr>status = 403, payload = JObj [(''error'', JStr ''Permission denied''),
           (''code'', JStr ''PERMISSION_DENIED''), (''details'', JStr (err_message err))]\<rparr>
      else if err_code err = Some ''ECONNREFUSED'' \<or> err_code err = Some ''ETIMEDOUT'' then
        \<lparr>status = 503, payload = JObj [(''error'', JStr ''External service unavailable''),
           (''code'', JStr ''SERVICE_UNAVAILABLE''),
           (''message'', JStr ''The requested service is temporarily unavailable. Please try again later.''),
           (''retryable'', JBool True)]\<rparr>
      else
        \<lparr>status = (case err_status err of Some n \<Rightarrow> if n \<noteq> 0 then n else 500 | None \<Rightarrow> 500),
         payload = JObj
           ([(''error'', JStr (if err_message err \<noteq> [] then err_message err
                                else ''Internal server error'')),
             (''code'', JStr (case err_code err of
                                Some c \<Rightarrow> if c \<noteq> [] then c else ''INTERNAL_ERROR''
                              | None \<Rightarrow> ''INTERNAL_ERROR''))]
            @ (if node_env = Some ''development'' then [(''stack'', JStr (err_stack err))] else []))\<rparr>)"

text \<open>
  A route handler either sends a response or throws; every handler catches what it
  throws and passes it to \<open>next(error)\<close>, which reaches \<open>errorHandler\<close>. The handler
  logs the error first.
\<close>

datatype outcome = Sent response | Threw js_error

definition finish_outcome :: "string option \<Rightarrow> outcome \<times> world \<Rightarrow> response \<times> world" where
  "finish_outcome node_env ow =
     (case fst ow of
        Sent r \<Rightarrow> (r, snd ow)
      | Threw e \<Rightarrow> (errorHandler node_env e,
                    console_error (''Error: '' @ err_name e @ '': '' @ err_message e) (snd ow)))"

section \<open>Audit recorder (middleware/auditLogger.js)\<close>

definition AUDITABLE_ACTIONS :: "string list" where
  "AUDITABLE_ACTIONS =
     [''CREATE'', ''UPDATE'', ''DELETE'', ''LOCK'', ''UNLOCK'',
      ''APPROVE'', ''REJECT'', ''OVERRIDE'', ''DOWNLOAD'',
      ''EXPORT'', ''ACCESS_GRANT'', ''ACCESS_REVOKE'',
      ''CONFIG_CHANGE'', ''INTEGRATION_CREATE'', ''INTEGRATION_UPDATE'']"

definition lower_char :: "char \<Rightarrow> char" where
  "lower_char c =
     (let n = (of_char c :: nat) in if 65 \<le> n \<and> n \<le> 90 then char_of (n + 32) else c)"

definition toLowerCase :: "string \<Rightarrow> string" where
  "toLowerCase s = map lower_char s"

definition extractModule :: "string \<Rightarrow> string" where
  "extractModule p =
     (if js_includes p ''/rfp'' then ''rfp''
      else if js_includes p ''/contract'' then ''contract''
      else if js_includes p ''/procurement'' then ''procurement''
      else if js_includes p ''/performance'' then ''performance''
      else if js_includes p ''/risk'' then ''risk''
      else if js_includes p ''/analytics'' then ''analytics''
      else if js_includes p ''/helpdesk'' then ''helpdesk''
      else if js_includes p ''/survey'' then ''survey''
      else if js_includes p ''/integration'' then ''integration''
      else if js_includes p ''/admin'' then ''admin''
      else ''general'')"

text \<open>
  \<open>{ ...body }\<close>: the own enumerable properties of the value. An array and a string
  spread to their elements under the keys \<open>"0"\<close>, \<open>"1"\<close>, ...; a number and a boolean have
  none.
\<close>

definition digit_char :: "nat \<Rightarrow> char" where
  "digit_char n = ''0123456789'' ! n"

fun decimal :: "nat \<Rightarrow> string" where
  "decimal n = (if n < 10 then [digit_char n] else decimal (n div 10) @ [digit_char (n mod 10)])"

fun spread :: "json \<Rightarrow> (string \<times> json) list" where
  "spread (JObj kvs) = kvs"
| "spread (JArr xs) = zip (map decimal [0..<length xs]) xs"
| "spread (JStr s) = zip (map decimal [0..<length s]) (map (\<lambda>c. JStr [c]) s)"
| "spread j = []"

text \<open>\<open>if (sanitized.k) sanitized.k = '[REDACTED]'\<close> on the copy.\<close>

definition redact :: "string \<Rightarrow> (string \<times> json) list \<Rightarrow> (string \<times> json) list" where
  "redact k obj =
     (case map_of obj k of
        Some v \<Rightarrow> if truthy v then AList.update k (JStr ''[REDACTED]'') obj else obj
      | None \<Rightarrow> obj)"

definition sanitizeBody :: "json option \<Rightarrow> json" where
  "sanitizeBody b =
     (case b of
        None \<Rightarrow> JNull
      | Some j \<Rightarrow>
          if \<not> truthy j then JNull
          else JObj (redact ''token'' (redact ''password_hash'' (redact ''password'' (spread j)))))"

text \<open>\<open>x || null\<close> for a property that may be missing.\<close>

definition or_null :: "json option \<Rightarrow> json" where
  "or_null v = (case v of Some j \<Rightarrow> if truthy j then j else JNull | None \<Rightarrow> JNull)"

definition js_length :: "json \<Rightarrow> json option" where
  "js_length d =
     (case d of
        JArr xs \<Rightarrow> Some (JNum (real (length xs)))
      | JStr s \<Rightarrow> Some (JNum (real (length s)))
      | JObj kvs \<Rightarrow> map_of kvs ''length''
      | _ \<Rightarrow> None)"

definition sanitizeResponse :: "json option \<Rightarrow> json" where
  "sanitizeResponse response =
     (case response of
        None \<Rightarrow> JNull
      | Some r \<Rightarrow>
          if \<not> truthy r then JNull
          else
            (case r of
               JObj kvs \<Rightarrow>
                 JObj [(''success'', (case map_of kvs ''success'' of Some v \<Rightarrow> v | None \<Rightarrow> JNull)),
                       (''error'', or_null (map_of kvs ''error'')),
                       (''count'',
                          (if truthy (or_null (map_of kvs ''count'')) then or_null (map_of kvs ''count'')
                           else or_null (case map_of kvs ''data'' of
                                           Some d \<Rightarrow> js_length d | None \<Rightarrow> None)))]
             | JArr xs \<Rightarrow>
                 JObj [(''success'', JNull), (''error'', JNull), (''count'', JNull)]
             | _ \<Rightarrow> JNull))"

text \<open>
  The callback registered on the response's \<open>finish\<close> event. It runs once, after the
  response has been sent. Its parameters:
  \<^item> \<open>store_rejects\<close>: the store's verdict on the row to insert, \<open>None\<close> when the insert
    is accepted and the error's message when the promise rejects;
  \<^item> \<open>now\<close>: the clock, \<open>new Date()\<close>;
  \<^item> \<open>responseBody\<close>: \<open>res.locals.responseBody\<close> as the replaced \<open>res.json\<close> and
    \<open>res.send\<close> left it.
  \<open>req\<close> is the request object as the later middleware left it, \<open>ip req\<close> stands for
  \<open>req.ip || req.connection.remoteAddress\<close> and \<open>user_agent req\<close> for
  \<open>req.get('user-agent')\<close>. \<open>details\<close> is kept as the value handed to
  \<open>JSON.stringify\<close>, which drops a property whose value is undefined.
\<close>

definition shouldAudit :: "request \<Rightarrow> response \<Rightarrow> bool" where
  "shouldAudit req res =
     (list_ex (\<lambda>a. js_includes (req_method req) a \<or> js_includes (path req) (toLowerCase a))
        AUDITABLE_ACTIONS
      \<or> status res \<ge> 400 \<or> user req \<noteq> None)"

definition auditData :: "nat \<Rightarrow> json option \<Rightarrow> request \<Rightarrow> response \<Rightarrow> string \<Rightarrow> audit_row" where
  "auditData now responseBody req res tid =
     \<lparr>al_tenant_id = tid,
      al_user_id = (case user req of
                      Some u \<Rightarrow> if ru_id u \<noteq> [] then Some (ru_id u) else None
                    | None \<Rightarrow> None),
      al_action = req_method req @ '' '' @ path req,
      al_resource_type = (case route_path req of
                            Some p \<Rightarrow> if p \<noteq> [] then p else path req
                          | None \<Rightarrow> path req),
      al_resource_id = (case params_id req of
                          Some i \<Rightarrow> if i \<noteq> [] then JStr i
                                    else or_null (case body req of Some b \<Rightarrow> get_prop b ''id'' | None \<Rightarrow> None)
                        | None \<Rightarrow> or_null (case body req of Some b \<Rightarrow> get_prop b ''id'' | None \<Rightarrow> None)),
      al_module = extractModule (path req),
      al_details = JObj
        ([(''method'', JStr (req_method req)),
          (''path'', JStr (path req)),
          (''query'', query_params req),
          (''body'', sanitizeBody (body req)),
          (''status_code'', JNum (real (status res))),
          (''response'', sanitizeResponse responseBody),
          (''ip_address'', JStr (ip req))]
         @ (case user_agent req of Some a \<Rightarrow> [(''user_agent'', JStr a)] | None \<Rightarrow> [])),
      al_ip_address = ip req,
      al_user_agent = user_agent req,
      al_timestamp = now\<rparr>"

definition on_finish ::
  "(audit_row \<Rightarrow> string option) \<Rightarrow> nat \<Rightarrow> json option \<Rightarrow> request \<Rightarrow> response \<Rightarrow> world \<Rightarrow> world" where
  "on_finish store_rejects now responseBody req res w =
     (case tenantId req of
        None \<Rightarrow> w
      | Some tid \<Rightarrow>
          if shouldAudit req res \<and> tid \<noteq> [] then
            (let row = auditData now responseBody req res tid;
                 w1 = emit (Query ''INSERT audit_logs'') w
             in case store_rejects row of
                  None \<Rightarrow> w1\<lparr>audit_logs := audit_logs w1 @ [row]\<rparr>
                | Some err \<Rightarrow> console_error (''Audit log insertion failed: '' @ err) w1)
          else w)"

section \<open>The request pipeline (server.js)\<close>

text \<open>
  The environment of the process: \<open>jwt.verify\<close> with the configured secret, the two
  variables of \<open>process.env\<close> the middleware reads, the store's verdict on an audit row and
  the clock.
\<close>

record env =
  jwt_verify :: "string \<Rightarrow> jwt_outcome"
  node_env :: "string option"
  default_tenant_id :: "string option"
  audit_rejects :: "audit_row \<Rightarrow> string option"
  clock :: nat

type_synonym handler = "request \<Rightarrow> world \<Rightarrow> outcome \<times> world"

text \<open>
  A route runs its \<open>authorize(...)\<close> gate, when it declares one, and then its handler.
\<close>

definition guarded :: "string list \<Rightarrow> handler \<Rightarrow> handler" where
  "guarded allowedRoles h req w =
     (case authorize allowedRoles req of
        Respond r \<Rightarrow> (Sent r, w)
      | Next req1 \<Rightarrow> h req1 w)"

text \<open>
  \<open>server.js\<close> for a route mounted after the authentication routes: \<open>auditLogger\<close>
  registers its callback, then come \<open>authenticate\<close>, \<open>tenantMiddleware\<close>, the router,
  which starts with \<open>router.use(authenticate)\<close> again, the route and, for a thrown error,
  \<open>errorHandler\<close>. The \<open>finish\<close> callback runs when the response has been sent and
  sees the request object as the middleware left it. \<open>responseBody\<close> is what the
  callback finds in \<open>res.locals\<close>.
\<close>

definition before_route :: "env \<Rightarrow> request \<Rightarrow> world \<Rightarrow> (response \<times> request + request) \<times> world" where
  "before_route e req w =
     (case authenticate (jwt_verify e) req w of
        (Respond r, w1) \<Rightarrow> (Inl (r, req), w1)
      | (Next req1, w1) \<Rightarrow>
          (case tenantMiddleware (node_env e) (default_tenant_id e) req1 w1 of
             (Respond r, w2) \<Rightarrow> (Inl (r, req1), w2)
           | (Next req2, w2) \<Rightarrow>
               (case authenticate (jwt_verify e) req2 w2 of
                  (Respond r, w3) \<Rightarrow> (Inl (r, req2), w3)
                | (Next req3, w3) \<Rightarrow> (Inr req3, w3))))"

definition dispatch :: "env \<Rightarrow> handler \<Rightarrow> request \<Rightarrow> world \<Rightarrow> (response \<times> request) \<times> world" where
  "dispatch e h req w =
     (case before_route e req w of
        (Inl rejected, w1) \<Rightarrow> (rejected, w1)
      | (Inr req3, w3) \<Rightarrow>
          (case finish_outcome (node_env e) (h req3 w3) of
             (r, w4) \<Rightarrow> ((r, req3), w4)))"

definition serve :: "env \<Rightarrow> json option \<Rightarrow> handler \<Rightarrow> request \<Rightarrow> world \<Rightarrow> response \<times> world" where
  "serve e responseBody h req w =
     (case dispatch e h req w of
        ((r, req1), w1) \<Rightarrow> (r, on_finish (audit_rejects e) (clock e) responseBody req1 r w1))"

section \<open>Procurement (routes/procurement.js)\<close>

text \<open>
  Statements of the store. An insert into a table with a \<open>vendor_id\<close> column is
  rejected with the foreign-key error 23503 unless the value is the id of a vendor, and
  with the unique-violation error 23505 when the generated id is taken; the other
  constraints on values the client supplies are not modelled. A numeric column keeps the
  value that was sent.
\<close>

definition pg_error :: "string \<Rightarrow> string \<Rightarrow> js_error" where
  "pg_error code msg =
     \<lparr>err_name = ''error'', err_message = msg, err_code = Some code, err_detail = None,
      err_errors = None, err_status = None, err_stack = []\<rparr>"

definition is_vendor :: "world \<Rightarrow> json option \<Rightarrow> bool" where
  "is_vendor w v = (case v of Some (JStr i) \<Rightarrow> i \<in> set (map vendor_id (vendors w)) | _ \<Rightarrow> False)"

definition insert_check :: "world \<Rightarrow> json option \<Rightarrow> bool \<Rightarrow> js_error option" where
  "insert_check w vendor id_taken =
     (if id_taken then Some (pg_error ''23505'' ''duplicate key value violates unique constraint'')
      else if \<not> is_vendor w vendor
      then Some (pg_error ''23503'' ''insert or update violates foreign key constraint'')
      else None)"

text \<open>
  \<open>syncPOToERP\<close>. The call to the ERP system is a TODO in the source, simulated by a
  timer; \<open>erp_call\<close> stands for it and gives the message of the error it throws, if any
  (the source as written is \<open>erp_call = (\<lambda>i s. None)\<close>). \<open>log_rejects\<close> is the store's
  verdict on the row inserted into \<open>integration_sync_logs\<close>, \<open>success_log\<close>: \<open>None\<close> when
  the insert is accepted, the error's message when it is rejected. The result is the
  message of the error the function throws, if it throws.
\<close>

record sync_env =
  erp_call :: "string \<Rightarrow> json \<Rightarrow> string option"
  log_rejects :: "sync_log_row \<Rightarrow> string option"

definition set_synced :: "string \<Rightarrow> po_row \<Rightarrow> po_row" where
  "set_synced poId r =
     (if po_id r = poId
      then r\<lparr>po_erp_sync_status := Some ''synced'', po_erp_po_id := Some (''ERP-'' @ take 8 poId)\<rparr>
      else r)"

definition set_failed :: "string \<Rightarrow> string \<Rightarrow> po_row \<Rightarrow> po_row" where
  "set_failed poId msg r =
     (if po_id r = poId
      then r\<lparr>po_erp_sync_status := Some ''failed'', po_erp_sync_error := Some msg\<rparr>
      else r)"

definition erp_name :: "json \<Rightarrow> string" where
  "erp_name erpSystem = (case erpSystem of JStr s \<Rightarrow> s | _ \<Rightarrow> [])"

definition success_log :: sync_log_row where
  "success_log = \<lparr>sl_integration_id = None, sl_sync_type = ''po'', sl_direction = ''push'',
                   sl_status = ''success'', sl_records_processed = 1\<rparr>"

definition syncPOToERP :: "sync_env \<Rightarrow> string \<Rightarrow> json \<Rightarrow> world \<Rightarrow> string option \<times> world" where
  "syncPOToERP se poId erpSystem w =
     (let w1 = emit (ErpSync poId (erp_name erpSystem)) w in
      case erp_call se poId erpSystem of
        Some msg \<Rightarrow> (Some msg, w1)
      | None \<Rightarrow>
          (let w2 = emit (Query ''UPDATE purchase_orders'')
                      (w1\<lparr>purchase_orders := map (set_synced poId) (purchase_orders w1)\<rparr>);
               w3 = emit (Query ''INSERT integration_sync_logs'') w2
           in case log_rejects se success_log of
                Some msg \<Rightarrow> (Some msg, w3)
              | None \<Rightarrow> (None, w3\<lparr>integration_sync_logs := integration_sync_logs w3 @ [success_log]\<rparr>)))"

text \<open>
  The constraint of \<open>schema.sql\<close> on that row:
  \<open>integration_id UUID NOT NULL REFERENCES integrations(id)\<close>.
\<close>

definition schema_log_rejects :: "sync_log_row \<Rightarrow> string option" where
  "schema_log_rejects row =
     (case sl_integration_id row of
        None \<Rightarrow> Some ''null value in column integration_id violates not-null constraint''
      | Some i \<Rightarrow> None)"

text \<open>
  \<open>POST /purchase-orders\<close>. \<open>validation_errors\<close> is the result of the express-validator
  chain of the route, \<open>new_id\<close> the id the store generates for the row and \<open>poNumber\<close> the
  number built from the clock's year and the count of the tenant's orders.
\<close>

record po_env =
  po_sync :: sync_env
  po_validation_errors :: "request \<Rightarrow> json list"
  po_new_id :: string
  poNumber :: "nat \<Rightarrow> string"

definition body_prop :: "request \<Rightarrow> string \<Rightarrow> json option" where
  "body_prop req k = (case body req of Some b \<Rightarrow> get_prop b k | None \<Rightarrow> None)"

definition json_opt :: "json option \<Rightarrow> json" where
  "json_opt v = (case v of Some j \<Rightarrow> j | None \<Rightarrow> JNull)"

definition po_json :: "po_row \<Rightarrow> json" where
  "po_json r = JObj
     [(''id'', JStr (po_id r)), (''tenant_id'', JStr (po_tenant_id r)),
      (''po_number'', JStr (po_number r)), (''contract_id'', json_opt (po_contract_id r)),
      (''vendor_id'', json_opt (po_vendor_id r)), (''status'', JStr (po_status r)),
      (''total_amount'', json_opt (po_total_amount r)), (''currency'', json_opt (po_currency r)),
      (''line_items'', json_opt (po_line_items r)), (''erp_system'', json_opt (po_erp_system r)),
      (''erp_po_id'', opt_str (po_erp_po_id r)),
      (''erp_sync_status'', opt_str (po_erp_sync_status r)),
      (''erp_sync_error'', opt_str (po_erp_sync_error r)),
      (''created_by'', JStr (po_created_by r))]"

text \<open>
  \<open>body('currency').optional().default('USD')\<close>: the sanitizer replaces a missing, null
  or empty value by the default before the handler reads the body.
\<close>

definition default_to :: "json \<Rightarrow> json option \<Rightarrow> json option" where
  "default_to d v = (case v of None \<Rightarrow> Some d | Some JNull \<Rightarrow> Some d
                     | Some (JStr s) \<Rightarrow> if s = [] then Some d else v | _ \<Rightarrow> v)"

definition the_tenant :: "request \<Rightarrow> string" where
  "the_tenant req = (case tenantId req of Some t \<Rightarrow> t | None \<Rightarrow> [])"

definition the_user_id :: "request \<Rightarrow> string" where
  "the_user_id req = (case user req of Some u \<Rightarrow> ru_id u | None \<Rightarrow> [])"

definition new_po :: "po_env \<Rightarrow> request \<Rightarrow> world \<Rightarrow> po_row" where
  "new_po pe req w =
     \<lparr>po_id = po_new_id pe,
      po_tenant_id = the_tenant req,
      po_number = poNumber pe (length (filter (\<lambda>r. po_tenant_id r = the_tenant req) (purchase_orders w))),
      po_contract_id = body_prop req ''contract_id'',
      po_vendor_id = body_prop req ''vendor_id'',
      po_status = ''draft'',
      po_total_amount = body_prop req ''total_amount'',
      po_currency = default_to (JStr ''USD'') (body_prop req ''currency''),
      po_line_items = body_prop req ''line_items'',
      po_erp_system = body_prop req ''erp_system'',
      po_erp_po_id = None,
      po_erp_sync_status = Some ''pending'',
      po_erp_sync_error = None,
      po_created_by = the_user_id req\<rparr>"

definition create_purchase_order :: "po_env \<Rightarrow> handler" where
  "create_purchase_order pe req w =
     (if po_validation_errors pe req \<noteq> [] then
        (Sent \<lparr>status = 400, payload = JObj [(''errors'', JArr (po_validation_errors pe req))]\<rparr>, w)
      else
        (let w1 = emit (Query ''SELECT COUNT purchase_orders'') w;
             po = new_po pe req w1;
             w2 = emit (Query ''INSERT purchase_orders'') w1
         in case insert_check w2 (po_vendor_id po) (po_id po \<in> set (map po_id (purchase_orders w2))) of
              Some err \<Rightarrow> (Threw err, w2)
            | None \<Rightarrow>
                (let w3 = w2\<lparr>purchase_orders := purchase_orders w2 @ [po]\<rparr>;
                     w5 = (if truthy (json_opt (po_erp_system po)) then
                             (case syncPOToERP (po_sync pe) (po_id po) (json_opt (po_erp_system po)) w3 of
                                (None, w4) \<Rightarrow> w4
                              | (Some msg, w4) \<Rightarrow>
                                  emit (Query ''UPDATE purchase_orders'')
                                    ((console_error (''ERP sync error: '' @ msg) w4)
                                       \<lparr>purchase_orders := map (set_failed (po_id po) msg) (purchase_orders w4)\<rparr>))
                           else w3)
                 in (Sent \<lparr>status = 201, payload = JObj [(''purchase_order'', po_json po)]\<rparr>, w5))))"

text \<open>\<open>POST /purchase-orders/:id/sync\<close>, behind \<open>authorize('buyer_admin')\<close>.\<close>

definition select_po :: "world \<Rightarrow> string option \<Rightarrow> string \<Rightarrow> po_row list" where
  "select_po w i tid = filter (\<lambda>r. Some (po_id r) = i \<and> po_tenant_id r = tid) (purchase_orders w)"

definition sync_purchase_order :: "sync_env \<Rightarrow> handler" where
  "sync_purchase_order se req w =
     (let w1 = emit (Query ''SELECT purchase_orders'') w in
      case select_po w (params_id req) (the_tenant req) of
        [] \<Rightarrow> (Sent \<lparr>status = 404, payload = JObj [(''error'', JStr ''Purchase order not found'')]\<rparr>, w1)
      | po # rest \<Rightarrow>
          if \<not> truthy (json_opt (po_erp_system po)) then
            (Sent \<lparr>status = 400,
                   payload = JObj [(''error'', JStr ''No ERP system configured for this PO'')]\<rparr>, w1)
          else
            (case syncPOToERP se (po_id po) (json_opt (po_erp_system po)) w1 of
               (None, w2) \<Rightarrow>
                 (Sent \<lparr>status = 200,
                        payload = JObj [(''message'', JStr ''PO synced to ERP successfully'')]\<rparr>, w2)
             | (Some msg, w2) \<Rightarrow>
                 (Sent \<lparr>status = 503,
                        payload = JObj [(''error'', JStr ''ERP sync failed''), (''message'', JStr msg),
                                        (''retryable'', JBool True)]\<rparr>, w2)))"

definition procurement_create :: "po_env \<Rightarrow> handler" where
  "procurement_create pe = guarded [''buyer_admin'', ''buyer_user''] (create_purchase_order pe)"

definition procurement_sync :: "sync_env \<Rightarrow> handler" where
  "procurement_sync se = guarded [''buyer_admin''] (sync_purchase_order se)"

section \<open>Penalties (routes/performance.js)\<close>

text \<open>
  \<open>checkBiasPatterns\<close> is a placeholder that returns a fixed object with \<open>flagged: false\<close>,
  so the branch that attaches a bias flag to the response is never taken.
\<close>

definition checkBiasPatterns_rationale :: string where
  "checkBiasPatterns_rationale = ''No bias patterns detected''"

record pen_env =
  pen_validation_errors :: "request \<Rightarrow> json list"
  pen_new_id :: string

definition penalty_fields :: "penalty_row \<Rightarrow> (string \<times> json) list" where
  "penalty_fields r =
     [(''id'', JStr (pen_id r)), (''tenant_id'', JStr (pen_tenant_id r)),
      (''vendor_id'', json_opt (pen_vendor_id r)), (''contract_id'', json_opt (pen_contract_id r)),
      (''penalty_type'', json_opt (pen_penalty_type r)), (''amount'', json_opt (pen_amount r)),
      (''currency'', pen_currency r), (''reason'', json_opt (pen_reason r)),
      (''ai_suggested'', JBool (pen_ai_suggested r)), (''ai_rationale'', JStr (pen_ai_rationale r)),
      (''status'', JStr (pen_status r)), (''approved_by'', opt_str (pen_approved_by r)),
      (''created_by'', JStr (pen_created_by r))]"

definition penalty_json :: "penalty_row \<Rightarrow> json" where
  "penalty_json r = JObj (penalty_fields r)"

definition new_penalty :: "pen_env \<Rightarrow> request \<Rightarrow> penalty_row" where
  "new_penalty pe req =
     \<lparr>pen_id = pen_new_id pe,
      pen_tenant_id = the_tenant req,
      pen_vendor_id = body_prop req ''vendor_id'',
      pen_contract_id = body_prop req ''contract_id'',
      pen_penalty_type = body_prop req ''penalty_type'',
      pen_amount = body_prop req ''amount'',
      pen_currency = (if truthy (json_opt (body_prop req ''currency''))
                      then json_opt (body_prop req ''currency'') else JStr ''USD''),
      pen_reason = body_prop req ''reason'',
      pen_ai_suggested = False,
      pen_ai_rationale = checkBiasPatterns_rationale,
      pen_status = ''pending'',
      pen_approved_by = None,
      pen_created_by = the_user_id req\<rparr>"

text \<open>
  \<open>GET /penalties\<close>: the tenant's penalties joined with their vendors, filtered by the
  query string, newest first (the table keeps the rows in the order of their creation).
\<close>

definition query_filter :: "request \<Rightarrow> string \<Rightarrow> json option \<Rightarrow> bool" where
  "query_filter req k v =
     (case get_prop (query_params req) k of
        Some q \<Rightarrow> if truthy q then v = Some q else True
      | None \<Rightarrow> True)"

definition list_penalties :: handler where
  "list_penalties req w =
     (Sent \<lparr>status = 200, payload = JObj [(''penalties'', JArr
        (concat (map (\<lambda>r. map (\<lambda>v. JObj (penalty_fields r @ [(''vendor_name'', JStr (vendor_name v))]))
                        (filter (\<lambda>v. pen_vendor_id r = Some (JStr (vendor_id v))) (vendors w)))
           (rev (filter (\<lambda>r. pen_tenant_id r = the_tenant req
                          \<and> query_filter req ''vendor_id'' (pen_vendor_id r)
                          \<and> query_filter req ''status'' (Some (JStr (pen_status r))))
                   (penalties w))))))]\<rparr>,
      emit (Query ''SELECT penalties'') w)"

text \<open>\<open>POST /penalties\<close>, behind \<open>authorize('buyer_admin')\<close>.\<close>

definition create_penalty :: "pen_env \<Rightarrow> handler" where
  "create_penalty pe req w =
     (if pen_validation_errors pe req \<noteq> [] then
        (Sent \<lparr>status = 400, payload = JObj [(''errors'', JArr (pen_validation_errors pe req))]\<rparr>, w)
      else
        (let penalty = new_penalty pe req;
             w1 = emit (Query ''INSERT penalties'') w
         in case insert_check w1 (pen_vendor_id penalty)
                   (pen_id penalty \<in> set (map pen_id (penalties w1))) of
              Some err \<Rightarrow> (Threw err, w1)
            | None \<Rightarrow>
                (Sent \<lparr>status = 201, payload = JObj
                    [(''penalty'', penalty_json penalty),
                     (''message'', JStr ''Penalty created. Requires approval before enforcement.''),
                     (''advisory_only'', JBool True)]\<rparr>,
                 w1\<lparr>penalties := penalties w1 @ [penalty]\<rparr>)))"

text \<open>\<open>POST /penalties/:id/approve\<close>, behind \<open>authorize('buyer_admin')\<close>.\<close>

definition approvable :: "request \<Rightarrow> penalty_row \<Rightarrow> bool" where
  "approvable req r =
     (Some (pen_id r) = params_id req \<and> pen_tenant_id r = the_tenant req \<and> pen_status r = ''pending'')"

definition set_approved :: "request \<Rightarrow> penalty_row \<Rightarrow> penalty_row" where
  "set_approved req r =
     (if approvable req r
      then r\<lparr>pen_status := ''approved'', pen_approved_by := Some (the_user_id req)\<rparr>
      else r)"

definition approve_penalty :: handler where
  "approve_penalty req w =
     (let w1 = emit (Query ''UPDATE penalties'') w in
      case filter (approvable req) (penalties w) of
        [] \<Rightarrow> (Sent \<lparr>status = 404,
                       payload = JObj [(''error'', JStr ''Penalty not found or cannot be approved'')]\<rparr>, w1)
      | r # rest \<Rightarrow>
          (Sent \<lparr>status = 200, payload = JObj
              [(''penalty'', penalty_json (set_approved req r)),
               (''message'', JStr ''Penalty approved'')]\<rparr>,
           w1\<lparr>penalties := map (set_approved req) (penalties w1)\<rparr>))"

definition performance_list_penalties :: handler where
  "performance_list_penalties = list_penalties"

definition performance_create_penalty :: "pen_env \<Rightarrow> handler" where
  "performance_create_penalty pe = guarded [''buyer_admin''] (create_penalty pe)"

definition performance_approve_penalty :: handler where
  "performance_approve_penalty = guarded [''buyer_admin''] approve_penalty"

section \<open>Risk assessments (routes/risk.js)\<close>

text \<open>
  \<open>fetchRiskData\<close>. The call to the rating provider is simulated in the source;
  \<open>provider_call\<close> stands for the body of the \<open>try\<close> block: for the number of failed
  attempts so far it gives the risk score returned or the message of the error thrown.
  The function returns the result with the waits it made, in milliseconds.
\<close>

definition maxAttempts :: nat where
  "maxAttempts = 3"

datatype 'a attempt = Returned 'a | Failed string

text \<open>
  The result is \<open>Some (Returned d)\<close> when the function returns \<open>d\<close>, \<open>Some (Failed m)\<close> when
  it throws an error with message \<open>m\<close>, and \<open>None\<close> when the \<open>while\<close> loop is left at
  its head and the function returns \<open>undefined\<close>.
\<close>

function fetchRiskData_loop ::
  "(nat \<Rightarrow> real attempt) \<Rightarrow> nat \<Rightarrow> nat list \<Rightarrow> real attempt option \<times> nat list" where
  "fetchRiskData_loop provider_call attempts waits =
     (if attempts < maxAttempts then
        (case provider_call attempts of
           Returned score \<Rightarrow> (Some (Returned score), waits)
         | Failed msg \<Rightarrow>
             if attempts + 1 \<ge> maxAttempts
             then (Some (Failed (''Failed to fetch risk data after '' @ decimal maxAttempts
                                  @ '' attempts: '' @ msg)), waits)
             else fetchRiskData_loop provider_call (attempts + 1)
                    (waits @ [2 ^ (attempts + 1) * 1000]))
      else (None, waits))"
  by pat_completeness auto
termination
  by (relation "measure (\<lambda>(p, attempts, waits). maxAttempts - attempts)") (auto simp: maxAttempts_def)

definition fetchRiskData :: "(nat \<Rightarrow> real attempt) \<Rightarrow> real attempt option \<times> nat list" where
  "fetchRiskData provider_call = fetchRiskData_loop provider_call 0 []"

definition calculateRiskLevel :: "real \<Rightarrow> string" where
  "calculateRiskLevel riskScore =
     (if riskScore \<ge> 75 then ''critical''
      else if riskScore \<ge> 50 then ''high''
      else if riskScore \<ge> 25 then ''medium''
      else ''low'')"

text \<open>
  \<open>updateVendorMaster\<close>: insert the vendor into the consolidated master, or on a conflict
  on \<open>vendor_id\<close> update its risk columns.
\<close>

definition updateVendorMaster :: "json option \<Rightarrow> real \<Rightarrow> string \<Rightarrow> world \<Rightarrow> world" where
  "updateVendorMaster vendorId riskScore riskLevel w =
     emit (Query ''INSERT vendor_master_consolidated'')
       (case filter (\<lambda>v. vendorId = Some (JStr (vendor_id v))) (vendors w) of
          [] \<Rightarrow> w
        | v # rest \<Rightarrow>
            if vendor_id v \<in> set (map vm_vendor_id (vendor_master_consolidated w))
            then w\<lparr>vendor_master_consolidated :=
                     map (\<lambda>m. if vm_vendor_id m = vendor_id v
                               then m\<lparr>vm_risk_score := riskScore, vm_risk_level := riskLevel\<rparr> else m)
                       (vendor_master_consolidated w)\<rparr>
            else w\<lparr>vendor_master_consolidated := vendor_master_consolidated w @
                     [\<lparr>vm_vendor_id = vendor_id v, vm_vendor_name = vendor_name v,
                       vm_status = vendor_status v, vm_risk_score = riskScore,
                       vm_risk_level = riskLevel\<rparr>]\<rparr>)"

text \<open>
  \<open>checkRiskThresholds(vendorId, riskScore, riskLevel)\<close>. The parameter list of the
  query starts with \<open>req.tenantId\<close>, and no \<open>req\<close> is in scope in this function or in
  the module: evaluating it throws a ReferenceError before the statement is sent.
\<close>

definition reference_error :: "string \<Rightarrow> js_error" where
  "reference_error name =
     \<lparr>err_name = ''ReferenceError'', err_message = name @ '' is not defined'', err_code = None,
      err_detail = None, err_errors = None, err_status = None, err_stack = []\<rparr>"

definition checkRiskThresholds :: "json option \<Rightarrow> real \<Rightarrow> string \<Rightarrow> world \<Rightarrow> js_error option \<times> world" where
  "checkRiskThresholds vendorId riskScore riskLevel w =
     (if riskLevel = ''critical'' \<or> riskLevel = ''high''
      then (Some (reference_error ''req''), w)
      else (None, w))"

record risk_env =
  risk_validation_errors :: "request \<Rightarrow> json list"
  risk_new_id :: string
  provider_call :: "nat \<Rightarrow> real attempt"
  provider_data :: json

definition assessment_json :: "assessment_row \<Rightarrow> json" where
  "assessment_json r = JObj
     [(''id'', JStr (ra_id r)), (''tenant_id'', JStr (ra_tenant_id r)),
      (''vendor_id'', json_opt (ra_vendor_id r)), (''risk_score'', JNum (ra_risk_score r)),
      (''risk_level'', JStr (ra_risk_level r)), (''provider'', json_opt (ra_provider r)),
      (''provider_data'', ra_provider_data r)]"

definition new_assessment :: "risk_env \<Rightarrow> request \<Rightarrow> real \<Rightarrow> assessment_row" where
  "new_assessment re req score =
     \<lparr>ra_id = risk_new_id re,
      ra_tenant_id = the_tenant req,
      ra_vendor_id = body_prop req ''vendor_id'',
      ra_risk_score = score,
      ra_risk_level = calculateRiskLevel score,
      ra_provider = body_prop req ''provider'',
      ra_provider_data = JObj [(''risk_score'', JNum score), (''provider_data'', provider_data re)]\<rparr>"

text \<open>\<open>POST /assessments\<close>, behind \<open>authorize('buyer_admin')\<close>.\<close>

definition type_error :: "string \<Rightarrow> js_error" where
  "type_error msg =
     \<lparr>err_name = ''TypeError'', err_message = msg, err_code = None,
      err_detail = None, err_errors = None, err_status = None, err_stack = []\<rparr>"

definition create_assessment :: "risk_env \<Rightarrow> handler" where
  "create_assessment re req w =
     (if risk_validation_errors re req \<noteq> [] then
        (Sent \<lparr>status = 400, payload = JObj [(''errors'', JArr (risk_validation_errors re req))]\<rparr>, w)
      else
        (case fetchRiskData (provider_call re) of
           (None, waits) \<Rightarrow>
             (Threw (type_error ''Cannot read properties of undefined (reading risk_score)''),
              w\<lparr>trace := trace w @ map Sleep waits\<rparr>)
         | (Some (Failed msg), waits) \<Rightarrow>
             (Sent \<lparr>status = 503, payload = JObj
                 [(''error'', JStr ''Risk provider unavailable''), (''message'', JStr msg),
                  (''retryable'', JBool True)]\<rparr>,
              w\<lparr>trace := trace w @ map Sleep waits\<rparr>)
         | (Some (Returned score), waits) \<Rightarrow>
             (let w0 = w\<lparr>trace := trace w @ map Sleep waits\<rparr>;
                  assessment = new_assessment re req score;
                  w1 = emit (Query ''INSERT vendor_risk_assessments'') w0
              in case insert_check w1 (ra_vendor_id assessment)
                        (ra_id assessment \<in> set (map ra_id (vendor_risk_assessments w1))) of
                   Some err \<Rightarrow> (Threw err, w1)
                 | None \<Rightarrow>
                     (let w2 = w1\<lparr>vendor_risk_assessments := vendor_risk_assessments w1 @ [assessment]\<rparr>;
                          w3 = updateVendorMaster (ra_vendor_id assessment) score
                                 (ra_risk_level assessment) w2
                      in case checkRiskThresholds (ra_vendor_id assessment) score
                                (ra_risk_level assessment) w3 of
                           (Some err, w4) \<Rightarrow> (Threw err, w4)
                         | (None, w4) \<Rightarrow>
                             (Sent \<lparr>status = 201,
                                    payload = JObj [(''assessment'', assessment_json assessment)]\<rparr>, w4)))))"

definition risk_create_assessment :: "risk_env \<Rightarrow> handler" where
  "risk_create_assessment re = guarded [''buyer_admin''] (create_assessment re)"

section \<open>Contracts (routes/contract.js)\<close>

text \<open>
  \<open>GET /:id\<close>: the contract joined with its vendor, then its clauses and its versions,
  the versions by descending number with the name of the user who made them. The
  clauses are ordered by the store's collation of \<open>clause_number\<close>, which is not
  modelled: they come in table order.
\<close>

definition contract_fields :: "contract_row \<Rightarrow> vendor_row \<Rightarrow> (string \<times> json) list" where
  "contract_fields c v =
     [(''id'', JStr (c_id c)), (''tenant_id'', JStr (c_tenant_id c)),
      (''contract_number'', JStr (c_contract_number c)), (''vendor_id'', JStr (c_vendor_id c)),
      (''contract_type'', JStr (c_contract_type c)), (''content'', opt_str (c_content c)),
      (''status'', JStr (c_status c)), (''vendor_name'', JStr (vendor_name v))]"

definition clause_json :: "clause_row \<Rightarrow> json" where
  "clause_json cl = JObj
     [(''contract_id'', JStr (cl_contract_id cl)), (''clause_number'', opt_str (cl_clause_number cl)),
      (''title'', JStr (cl_title cl)), (''content'', JStr (cl_content cl))]"

definition changed_by_name :: "world \<Rightarrow> version_row \<Rightarrow> json" where
  "changed_by_name w cv =
     (case filter (\<lambda>u. user_id u = cv_changed_by cv) (users w) of
        [] \<Rightarrow> JNull
      | u # rest \<Rightarrow> JStr (user_first_name u @ '' '' @ user_last_name u))"

definition version_json :: "world \<Rightarrow> version_row \<Rightarrow> json" where
  "version_json w cv = JObj
     [(''contract_id'', JStr (cv_contract_id cv)), (''version_number'', JNum (of_int (cv_version_number cv))),
      (''content'', JStr (cv_content cv)), (''changed_by'', JStr (cv_changed_by cv)),
      (''change_summary'', opt_str (cv_change_summary cv)),
      (''changed_by_name'', changed_by_name w cv)]"

definition select_contract :: "world \<Rightarrow> string option \<Rightarrow> string \<Rightarrow> (contract_row \<times> vendor_row) list" where
  "select_contract w i tid =
     concat (map (\<lambda>c. map (\<lambda>v. (c, v)) (filter (\<lambda>v. c_vendor_id c = vendor_id v) (vendors w)))
       (filter (\<lambda>c. Some (c_id c) = i \<and> c_tenant_id c = tid) (contracts w)))"

definition get_contract :: handler where
  "get_contract req w =
     (let w1 = emit (Query ''SELECT contracts JOIN vendors'') w in
      case select_contract w (params_id req) (the_tenant req) of
        [] \<Rightarrow> (Sent \<lparr>status = 404, payload = JObj [(''error'', JStr ''Contract not found'')]\<rparr>, w1)
      | (c, v) # rest \<Rightarrow>
          (Sent \<lparr>status = 200, payload = JObj [(''contract'', JObj
              (contract_fields c v @
               [(''clauses'', JArr (map clause_json
                   (filter (\<lambda>cl. Some (cl_contract_id cl) = params_id req) (contract_clauses w)))),
                (''versions'', JArr (map (version_json w)
                   (rev (sort_key cv_version_number
                      (filter (\<lambda>cv. Some (cv_contract_id cv) = params_id req) (contract_versions w))))))]))]\<rparr>,
           emit (Query ''SELECT contract_versions'') (emit (Query ''SELECT contract_clauses'') w1)))"

section \<open>Score overrides (routes/rfp.js)\<close>

text \<open>
  \<open>POST /:id/override-score\<close>, behind \<open>authorize('buyer_admin', 'evaluation_committee')\<close>.
  The evaluation is selected and updated by its id alone.
\<close>

record ov_env =
  ov_validation_errors :: "request \<Rightarrow> json list"
  ov_new_id :: string

definition override_json :: "override_row \<Rightarrow> json" where
  "override_json r = JObj
     [(''id'', JStr (ov_id r)), (''evaluation_id'', JStr (ov_evaluation_id r)),
      (''overridden_by'', JStr (ov_overridden_by r)), (''original_score'', ov_original_score r),
      (''new_score'', json_opt (ov_new_score r)), (''rationale'', json_opt (ov_rationale r)),
      (''override_reason'', json_opt (ov_override_reason r))]"

definition override_score :: "ov_env \<Rightarrow> handler" where
  "override_score oe req w =
     (if ov_validation_errors oe req \<noteq> [] then
        (Sent \<lparr>status = 400, payload = JObj [(''errors'', JArr (ov_validation_errors oe req))]\<rparr>, w)
      else
        (let w1 = emit (Query ''SELECT ai_evaluation_scores'') w in
         case filter (\<lambda>e. Some (JStr (es_id e)) = body_prop req ''evaluation_id'') (ai_evaluation_scores w) of
           [] \<Rightarrow> (Sent \<lparr>status = 404, payload = JObj [(''error'', JStr ''Evaluation not found'')]\<rparr>, w1)
         | originalEval # rest \<Rightarrow>
             (let row = \<lparr>ov_id = ov_new_id oe, ov_evaluation_id = es_id originalEval,
                         ov_overridden_by = the_user_id req,
                         ov_original_score = es_score originalEval,
                         ov_new_score = body_prop req ''new_score'',
                         ov_rationale = body_prop req ''rationale'',
                         ov_override_reason = body_prop req ''override_reason''\<rparr>;
                  w2 = emit (Query ''INSERT evaluation_overrides'') w1;
                  w3 = w2\<lparr>evaluation_overrides := evaluation_overrides w2 @ [row]\<rparr>;
                  w4 = emit (Query ''UPDATE ai_evaluation_scores'')
                         (w3\<lparr>ai_evaluation_scores :=
                               map (\<lambda>e. if es_id e = es_id originalEval
                                         then e\<lparr>es_score := json_opt (body_prop req ''new_score'')\<rparr> else e)
                                 (ai_evaluation_scores w3)\<rparr>)
              in (Sent \<lparr>status = 200, payload = JObj
                     [(''override'', override_json row),
                      (''message'', JStr ''Score overridden successfully. Override logged for audit.'')]\<rparr>,
                  w4))))"

definition rfp_override_score :: "ov_env \<Rightarrow> handler" where
  "rfp_override_score oe = guarded [''buyer_admin'', ''evaluation_committee''] (override_score oe)"

text \<open>The tenants that own an evaluation: those of the RFP its response answers.\<close>

definition evaluation_tenants :: "world \<Rightarrow> evaluation_row \<Rightarrow> string list" where
  "evaluation_tenants w e =
     concat (map (\<lambda>p. map rfp_tenant_id (filter (\<lambda>r. rfp_id r = rr_rfp_id p) (rfps w)))
       (filter (\<lambda>p. rr_id p = es_response_id e) (rfp_responses w)))"

section \<open>Vocabulary of the properties\<close>



definition bearer :: "request \<Rightarrow> string option" where
  "bearer req =
     (case authorization req of
        None \<Rightarrow> None
      | Some h \<Rightarrow> if startsWith h ''Bearer '' then Some (drop 7 h) else None)"

definition denied :: "string list \<Rightarrow> string \<Rightarrow> response" where
  "denied allowedRoles role =
     \<lparr>status = 403, payload = JObj
        [(''error'', JStr ''Insufficient permissions''),
         (''code'', JStr ''PERMISSION_DENIED''),
         (''required'', JArr (map JStr allowedRoles)),
         (''current'', JStr role)]\<rparr>"

text \<open>
  The routes mounted behind \<open>authenticate\<close> and \<open>tenantMiddleware\<close> are those whose URL
  does not start with \<open>/api/v1/auth\<close>. The audit recorder redacts the properties of the
  body named in \<open>secret_keys\<close>.
\<close>

definition protected_url :: "request \<Rightarrow> bool" where
  "protected_url req = (\<not> startsWith (originalUrl req) ''/api/v1/auth'')"

definition secret_keys :: "string list" where
  "secret_keys = [''password'', ''password_hash'', ''token'']"

text \<open>
  For the purchase orders: the message of the error \<open>syncPOToERP\<close> throws, if it throws;
  the rows with a given id; the core fields of a row; and the number of calls to the
  ERP system in the trace of a world.
\<close>

definition sync_error :: "sync_env \<Rightarrow> string \<Rightarrow> json \<Rightarrow> string option" where
  "sync_error se poId erpSystem =
     (case erp_call se poId erpSystem of Some msg \<Rightarrow> Some msg | None \<Rightarrow> log_rejects se success_log)"



definition erp_calls :: "world \<Rightarrow> nat" where
  "erp_calls w = length (filter (\<lambda>ev. case ev of ErpSync i s \<Rightarrow> True | _ \<Rightarrow> False) (trace w))"

text \<open>
  The routes of the model as operations, each with the gate it declares, and the
  callers with the role \<open>buyer_admin\<close>.
\<close>

datatype operation =
    GetContract
  | CreatePurchaseOrder po_env
  | SyncPurchaseOrder sync_env
  | ListPenalties
  | CreatePenalty pen_env
  | ApprovePenalty
  | CreateAssessment risk_env
  | OverrideScore ov_env

fun run :: "operation \<Rightarrow> handler" where
  "run GetContract = get_contract"
| "run (CreatePurchaseOrder pe) = procurement_create pe"
| "run (SyncPurchaseOrder se) = procurement_sync se"
| "run ListPenalties = performance_list_penalties"
| "run (CreatePenalty pe) = performance_create_penalty pe"
| "run ApprovePenalty = performance_approve_penalty"
| "run (CreateAssessment re) = risk_create_assessment re"
| "run (OverrideScore oe) = rfp_override_score oe"

definition is_admin :: "request \<Rightarrow> bool" where
  "is_admin req = (case user req of Some u \<Rightarrow> ru_role u = ''buyer_admin'' | None \<Rightarrow> False)"

text \<open>
  For the risk provider: the waits made after \<open>n\<close> failed attempts, in milliseconds;
  the message of the error \<open>fetchRiskData\<close> throws after the last attempt; and the
  response of the route when the provider is unavailable.
\<close>

definition backoff :: "nat \<Rightarrow> nat list" where
  "backoff n = map (\<lambda>k. 2 ^ k * 1000) [1..<Suc n]"

definition surfaced :: "string \<Rightarrow> string" where
  "surfaced msg = ''Failed to fetch risk data after 3 attempts: '' @ msg"

definition unavailable :: "string \<Rightarrow> response" where
  "unavailable msg =
     \<lparr>status = 503, payload = JObj
        [(''error'', JStr ''Risk provider unavailable''), (''message'', JStr msg),
         (''retryable'', JBool True)]\<rparr>"

text \<open>
  The answer of \<open>GET /contracts/:id\<close> for a contract that is not the caller's.
\<close>

definition not_found :: response where
  "not_found = \<lparr>status = 404, payload = JObj [(''error'', JStr ''Contract not found'')]\<rparr>"

section \<open>Concrete inputs\<close>

text \<open>
  Two tenants, each with an administrator and a vendor, and a verifier that knows the
  tokens \<open>alice\<close> and \<open>bob\<close>, takes \<open>expired\<close> for an expired token and any other token for
  one with a bad signature.
\<close>

definition demo_verify :: "string \<Rightarrow> jwt_outcome" where
  "demo_verify token =
     (if token = ''alice'' then Verified \<lparr>userId = Some ''user-a''\<rparr>
      else if token = ''bob'' then Verified \<lparr>userId = Some ''user-b''\<rparr>
      else if token = ''expired'' then TokenExpiredError
      else JsonWebTokenError)"

definition demo_env :: env where
  "demo_env = \<lparr>jwt_verify = demo_verify, node_env = Some ''production'', default_tenant_id = None,
                audit_rejects = (\<lambda>row. None), clock = 0\<rparr>"

definition demo_world :: world where
  "demo_world =
     \<lparr>tenants = [\<lparr>tenant_id = ''tenant-a'', tenant_name = ''Acme'', tenant_status = ''active'',
                   tenant_data_region = ''us-east-1'', tenant_hosting_type = ''cloud''\<rparr>,
                 \<lparr>tenant_id = ''tenant-b'', tenant_name = ''Bolt'', tenant_status = ''active'',
                   tenant_data_region = ''us-east-1'', tenant_hosting_type = ''cloud''\<rparr>],
      users = [\<lparr>user_id = ''user-a'', user_tenant_id = ''tenant-a'', user_email = ''alice@acme.test'',
                 user_role = ''buyer_admin'', user_first_name = ''Alice'', user_last_name = ''A'',
                 user_status = ''active''\<rparr>,
               \<lparr>user_id = ''user-b'', user_tenant_id = ''tenant-b'', user_email = ''bob@bolt.test'',
                 user_role = ''buyer_admin'', user_first_name = ''Bob'', user_last_name = ''B'',
                 user_status = ''active''\<rparr>],
      vendors = [\<lparr>vendor_id = ''vendor-a'', vendor_tenant_id = ''tenant-a'', vendor_name = ''Supplies'',
                   vendor_status = ''active''\<rparr>,
                 \<lparr>vendor_id = ''vendor-b'', vendor_tenant_id = ''tenant-b'', vendor_name = ''Parts'',
                   vendor_status = ''active''\<rparr>],
      vendor_master_consolidated = [],
      purchase_orders = [],
      integration_sync_logs = [],
      penalties = [],
      vendor_risk_assessments = [],
      risk_alerts = [],
      rfps = [],
      rfp_responses = [],
      ai_evaluation_scores = [],
      evaluation_overrides = [],
      contracts = [],
      contract_clauses = [],
      contract_versions = [],
      audit_logs = [],
      console = [],
      trace = []\<rparr>"

definition demo_request :: "string \<Rightarrow> string \<Rightarrow> string option \<Rightarrow> string option \<Rightarrow> json option \<Rightarrow> request" where
  "demo_request m p auth i b =
     \<lparr>req_method = m, path = p, originalUrl = p, route_path = None, authorization = auth,
      params_id = i, query_params = JObj [], body = b, ip = ''10.0.0.1'', user_agent = None,
      user = None, tenantId = None\<rparr>"

definition demo_handler :: handler where
  "demo_handler req w =
     (Sent \<lparr>status = 200, payload = JObj [(''ok'', JBool True)]\<rparr>, console_error ''handler ran'' w)"

definition demo_user :: "string \<Rightarrow> req_user" where
  "demo_user role =
     \<lparr>ru_id = ''user-a'', ru_email = ''alice@acme.test'', ru_tenant_id = ''tenant-a'',
      ru_tenant_name = ''Acme'', ru_role = role, ru_first_name = ''Alice'', ru_last_name = ''A'',
      ru_data_region = ''us-east-1''\<rparr>"

text \<open>
  A request to create an integration whose configuration carries a token, sent by the
  administrator of tenant \<open>tenant-a\<close>; the request object and the world as the
  middleware leaves them for her; a store that rejects every audit row.
\<close>

definition integration_body :: json where
  "integration_body = JObj
     [(''name'', JStr ''SAP''), (''type'', JStr ''ERP''), (''system'', JStr ''SAP''),
      (''password'', JStr ''top-level''),
      (''configuration'', JObj [(''token'', JStr ''s3cr3t'')])]"

definition integration_request :: request where
  "integration_request =
     demo_request ''POST'' ''/api/v1/integrations'' (Some ''Bearer alice'') None (Some integration_body)"

definition alice :: req_user where
  "alice = demo_user ''buyer_admin''"

definition as_alice :: "request \<Rightarrow> request" where
  "as_alice req = req\<lparr>user := Some alice, tenantId := Some ''tenant-a''\<rparr>"

definition routed :: "world \<Rightarrow> world" where
  "routed w = emit (Query ''SELECT users JOIN tenants'')
                (emit (Query ''SELECT tenants'') (emit (Query ''SELECT users JOIN tenants'') w))"

definition failing_audit_env :: env where
  "failing_audit_env = demo_env\<lparr>audit_rejects := (\<lambda>row. Some ''no partition of relation audit_logs found for row'')\<rparr>"

text \<open>
  A purchase order for the ERP system SAP, created by the administrator of
  \<open>tenant-a\<close>, and the request to sync it. \<open>demo_sync_env\<close> is the source as written
  against \<open>schema.sql\<close>: the simulated call never fails and the store rejects the sync
  log for its NULL \<open>integration_id\<close>. \<open>lenient_sync_env\<close> is a store that accepts that
  row.
\<close>

definition demo_sync_env :: sync_env where
  "demo_sync_env = \<lparr>erp_call = (\<lambda>i s. None), log_rejects = schema_log_rejects\<rparr>"

definition lenient_sync_env :: sync_env where
  "lenient_sync_env = \<lparr>erp_call = (\<lambda>i s. None), log_rejects = (\<lambda>row. None)\<rparr>"

definition demo_po_id :: string where
  "demo_po_id = ''0b6f5c1e-7d1a-4c1e-9a53-000000000001''"

definition demo_po_env :: po_env where
  "demo_po_env = \<lparr>po_sync = demo_sync_env, po_validation_errors = (\<lambda>req. []),
                   po_new_id = demo_po_id, poNumber = (\<lambda>n. ''PO-2026-'' @ decimal (n + 1))\<rparr>"

definition po_body :: json where
  "po_body = JObj
     [(''vendor_id'', JStr ''vendor-a''), (''total_amount'', JNum 1200),
      (''line_items'', JArr [JObj [(''sku'', JStr ''A-1''), (''quantity'', JNum 3)]]),
      (''erp_system'', JStr ''SAP'')]"

definition po_request :: request where
  "po_request = as_alice (demo_request ''POST'' ''/api/v1/procurement/purchase-orders''
                   (Some ''Bearer alice'') None (Some po_body))"

definition sync_request :: request where
  "sync_request = as_alice (demo_request ''POST'' ''/api/v1/procurement/purchase-orders/x/sync''
                   (Some ''Bearer alice'') (Some demo_po_id) None)"

definition w_created :: world where
  "w_created = snd (procurement_create demo_po_env po_request demo_world)"





text \<open>
  A penalty whose request body also carries \<open>ai_suggested: true\<close> and
  \<open>status: 'approved'\<close>, and the request to approve it.
\<close>

definition demo_pen_id :: string where
  "demo_pen_id = ''7c9e6679-7425-40de-944b-e07fc1f90ae7''"

definition demo_pen_env :: pen_env where
  "demo_pen_env = \<lparr>pen_validation_errors = (\<lambda>req. []), pen_new_id = demo_pen_id\<rparr>"

definition pen_body :: json where
  "pen_body = JObj
     [(''vendor_id'', JStr ''vendor-a''), (''penalty_type'', JStr ''late_delivery''),
      (''amount'', JNum 500), (''reason'', JStr ''Delivery was late''),
      (''ai_suggested'', JBool True), (''status'', JStr ''approved'')]"

definition pen_request :: request where
  "pen_request = as_alice (demo_request ''POST'' ''/api/v1/performance/penalties''
                    (Some ''Bearer alice'') None (Some pen_body))"

definition approve_request :: request where
  "approve_request = as_alice (demo_request ''POST'' ''/api/v1/performance/penalties/x/approve''
                        (Some ''Bearer alice'') (Some demo_pen_id) None)"

definition w_penalized :: world where
  "w_penalized = snd (run (CreatePenalty demo_pen_env) pen_request demo_world)"

definition w_approved :: world where
  "w_approved = snd (run ApprovePenalty approve_request w_penalized)"

text \<open>
  A provider that always times out, one that answers at the second attempt with the
  score 62, and a request for an assessment of the vendor of \<open>tenant-a\<close>.
\<close>

definition always_timeout :: "nat \<Rightarrow> real attempt" where
  "always_timeout j = Failed ''connect ETIMEDOUT''"

definition second_try :: "nat \<Rightarrow> real attempt" where
  "second_try j = (if j = 0 then Failed ''connect ETIMEDOUT'' else Returned 62)"

definition demo_assessment_id :: string where
  "demo_assessment_id = ''3f2504e0-4f89-41d3-9a0c-0305e82c3301''"

definition demo_risk_env :: risk_env where
  "demo_risk_env = \<lparr>risk_validation_errors = (\<lambda>req. []), risk_new_id = demo_assessment_id,
                     provider_call = second_try,
                     provider_data = JObj [(''rating'', JStr ''A'')]\<rparr>"

definition risk_request :: request where
  "risk_request = as_alice (demo_request ''POST'' ''/api/v1/risk/assessments'' (Some ''Bearer alice'') None
                     (Some (JObj [(''vendor_id'', JStr ''vendor-a''), (''provider'', JStr ''Moodys'')])))"

text \<open>
  A world in which tenant \<open>tenant-b\<close> has an RFP with a response and an AI evaluation
  of it, and the request by which the administrator of \<open>tenant-a\<close> overrides that
  evaluation's score; a world with a contract of \<open>tenant-b\<close> and the request to read it.
\<close>

definition cross_eval_id :: string where
  "cross_eval_id = ''9b2d7f1c-5a44-4c0e-8f21-000000000007''"

definition cross_world :: world where
  "cross_world = demo_world
     \<lparr>rfps := [\<lparr>rfp_id = ''rfp-b'', rfp_tenant_id = ''tenant-b'', rfp_owner_id = ''user-b'',
                 rfp_status = ''published''\<rparr>],
      rfp_responses := [\<lparr>rr_id = ''response-b'', rr_rfp_id = ''rfp-b'', rr_vendor_id = ''vendor-b'',
                          rr_status = ''submitted''\<rparr>],
      ai_evaluation_scores := [\<lparr>es_id = cross_eval_id, es_response_id = ''response-b'',
                                 es_criterion = ''cost'', es_score = JNum 40\<rparr>]\<rparr>"

definition demo_ov_env :: ov_env where
  "demo_ov_env = \<lparr>ov_validation_errors = (\<lambda>req. []),
                   ov_new_id = ''5d0c1a7e-93b2-4e6f-a1d4-000000000009''\<rparr>"

definition cross_request :: request where
  "cross_request = demo_request ''POST'' ''/api/v1/rfp/any/override-score'' (Some ''Bearer alice'')
     (Some ''any'')
     (Some (JObj [(''evaluation_id'', JStr cross_eval_id), (''new_score'', JNum 99),
                  (''rationale'', JStr ''better'')]))"

definition cross_after :: world where
  "cross_after = snd (rfp_override_score demo_ov_env (as_alice cross_request) (routed cross_world))"

definition contract_world :: world where
  "contract_world = demo_world
     \<lparr>contracts := [\<lparr>c_id = ''contract-b'', c_tenant_id = ''tenant-b'', c_contract_number = ''MSA-2026-00001'',
                      c_vendor_id = ''vendor-b'', c_contract_type = ''MSA'', c_content = Some ''terms'',
                      c_status = ''draft''\<rparr>]\<rparr>"

definition contract_request :: "string \<Rightarrow> string \<Rightarrow> request" where
  "contract_request token tid =
     (demo_request ''GET'' ''/api/v1/contracts/contract-b'' (Some (''Bearer '' @ token)) (Some ''contract-b'') None)
       \<lparr>tenantId := Some tid\<rparr>"

section \<open>Properties of the credential verifier\<close>








section \<open>Properties of the authorization gate\<close>

text \<open>
  Claim C3. For a request with a resolved user and any list of allowed roles, the gate
  lets the request through, unchanged, exactly when the user's role is in the list.
  Otherwise it answers 403 with the code \<open>PERMISSION_DENIED\<close>, the required roles and the
  caller's role. With an empty list every role is denied. The gate reads nothing but the
  role and the list and changes nothing.
\<close>

theorem authorize_membership:
  assumes "user req = Some u"
  shows "(ru_role u \<in> set allowedRoles \<longrightarrow> authorize allowedRoles req = Next req)
       \<and> (ru_role u \<notin> set allowedRoles \<longrightarrow>
            authorize allowedRoles req = Respond (denied allowedRoles (ru_role u))
            \<and> status (denied allowedRoles (ru_role u)) = 403
            \<and> get_prop (payload (denied allowedRoles (ru_role u))) ''required''
                = Some (JArr (map JStr allowedRoles))
            \<and> get_prop (payload (denied allowedRoles (ru_role u))) ''current''
                = Some (JStr (ru_role u)))
       \<and> authorize [] req = Respond (denied [] (ru_role u))"
  using assms by (simp add: authorize_def denied_def)

theorem authorize_membership_witness:
  "authorize [''buyer_admin'', ''buyer_user'']
     ((demo_request ''POST'' ''/api/v1/contracts'' None None None)\<lparr>user := Some (demo_user ''buyer_user'')\<rparr>)
     = Next ((demo_request ''POST'' ''/api/v1/contracts'' None None None)\<lparr>user := Some (demo_user ''buyer_user'')\<rparr>)
   \<and> authorize [''buyer_admin'']
     ((demo_request ''POST'' ''/api/v1/contracts'' None None None)\<lparr>user := Some (demo_user ''vendor_user'')\<rparr>)
     = Respond (denied [''buyer_admin''] ''vendor_user'')
   \<and> authorize []
     ((demo_request ''POST'' ''/api/v1/contracts'' None None None)\<lparr>user := Some (demo_user ''buyer_admin'')\<rparr>)
     = Respond (denied [] ''buyer_admin'')"
proof -
  let ?r = "\<lambda>role. (demo_request ''POST'' ''/api/v1/contracts'' None None None)\<lparr>user := Some (demo_user role)\<rparr>"
  have u: "\<And>role. user (?r role) = Some (demo_user role)" by simp
  have r: "\<And>role. ru_role (demo_user role) = role" by (simp add: demo_user_def)
  from authorize_membership [OF u, of "''buyer_user''" "[''buyer_admin'', ''buyer_user'']"]
       authorize_membership [OF u, of "''vendor_user''" "[''buyer_admin'']"]
       authorize_membership [OF u, of "''buyer_admin''" "[]"]
  show ?thesis by (simp add: r)
qed

section \<open>Properties of the middleware chain\<close>

text \<open>
  A request that reaches its route carries a user and a non-empty tenant id, and the
  middleware has changed nothing in the world but the trace of its three lookups.
\<close>

lemma authenticate_Next:
  assumes "authenticate v req w = (Next req1, w1)"
  shows "\<exists>u. req1 = req\<lparr>user := Some u\<rparr> \<and> w1 = emit (Query ''SELECT users JOIN tenants'') w"
  using assms
  by (auto simp: authenticate_def Let_def split: option.splits if_splits jwt_outcome.splits list.splits)

lemma filter_head:
  assumes "filter P xs = y # ys"
  shows "P y"
proof -
  have "y \<in> set (filter P xs)" by (simp add: assms)
  then show ?thesis by simp
qed

lemma tenantMiddleware_Next:
  assumes "tenantMiddleware ne dt req w = (Next req1, w1)" and "protected_url req"
  shows "\<exists>tid. tid \<noteq> [] \<and> req1 = req\<lparr>tenantId := Some tid\<rparr> \<and> w1 = emit (Query ''SELECT tenants'') w"
  using assms
  by (auto simp: tenantMiddleware_def protected_url_def Let_def
           split: option.splits if_splits list.splits dest!: filter_head)

lemma before_route_Inr:
  assumes "before_route e req w = (Inr req3, w3)" and "protected_url req"
  shows "\<exists>u tid. tid \<noteq> [] \<and> req3 = req\<lparr>user := Some u, tenantId := Some tid\<rparr>
           \<and> w3 = emit (Query ''SELECT users JOIN tenants'')
                   (emit (Query ''SELECT tenants'') (emit (Query ''SELECT users JOIN tenants'') w))"
proof -
  from assms(1) obtain req1 w1 req2 w2 where
    a1: "authenticate (jwt_verify e) req w = (Next req1, w1)" and
    t: "tenantMiddleware (node_env e) (default_tenant_id e) req1 w1 = (Next req2, w2)" and
    a2: "authenticate (jwt_verify e) req2 w2 = (Next req3, w3)"
    by (auto simp: before_route_def split: prod.splits step.splits)
  from authenticate_Next [OF a1] obtain u1 where
    r1: "req1 = req\<lparr>user := Some u1\<rparr>" and w1: "w1 = emit (Query ''SELECT users JOIN tenants'') w"
    by blast
  from assms(2) r1 have "protected_url req1" by (simp add: protected_url_def)
  from tenantMiddleware_Next [OF t this] obtain tid where
    tid: "tid \<noteq> []" and r2: "req2 = req1\<lparr>tenantId := Some tid\<rparr>" and w2: "w2 = emit (Query ''SELECT tenants'') w1"
    by blast
  from authenticate_Next [OF a2] obtain u where
    r3: "req3 = req2\<lparr>user := Some u\<rparr>" and w3: "w3 = emit (Query ''SELECT users JOIN tenants'') w2"
    by blast
  from r1 r2 r3 have "req3 = req\<lparr>user := Some u, tenantId := Some tid\<rparr>" by simp
  with tid w1 w2 w3 show ?thesis by blast
qed

lemma before_route_alice:
  assumes "jwt_verify e = demo_verify"
      and "users w = users demo_world" and "tenants w = tenants demo_world"
      and "\<not> startsWith p ''/api/v1/auth''"
  shows "before_route e (demo_request m p (Some ''Bearer alice'') i b) w
           = (Inr (as_alice (demo_request m p (Some ''Bearer alice'') i b)), routed w)"
  using assms
  by (simp add: before_route_def authenticate_def tenantMiddleware_def demo_request_def
        demo_verify_def active_user_rows_def demo_world_def emit_def
        as_alice_def alice_def demo_user_def routed_def startsWith_def)

section \<open>Properties of the audit recorder\<close>

lemma map_of_redact:
  "map_of (redact k obj) k' =
     (if k' = k \<and> (\<exists>v. map_of obj k = Some v \<and> truthy v) then Some (JStr ''[REDACTED]'')
      else map_of obj k')"
  by (auto simp: redact_def update_conv' split: option.splits)

lemma sanitizeBody_redacts:
  assumes "k \<in> set secret_keys" and "map_of kvs k = Some v" and "truthy v"
  shows "get_prop (sanitizeBody (Some (JObj kvs))) k = Some (JStr ''[REDACTED]'')"
  using assms by (auto simp: sanitizeBody_def secret_keys_def map_of_redact)

lemma sanitizeBody_keeps:
  assumes "k \<notin> set secret_keys"
  shows "get_prop (sanitizeBody (Some (JObj kvs))) k = map_of kvs k"
  using assms by (auto simp: sanitizeBody_def secret_keys_def map_of_redact)

lemma on_finish_user:
  assumes "tenantId req = Some tid" and "tid \<noteq> []" and "user req = Some u"
  shows "on_finish sr now rb req res w =
           (case sr (auditData now rb req res tid) of
              None \<Rightarrow> (emit (Query ''INSERT audit_logs'') w)\<lparr>audit_logs := audit_logs w @ [auditData now rb req res tid]\<rparr>
            | Some err \<Rightarrow> console_error (''Audit log insertion failed: '' @ err) (emit (Query ''INSERT audit_logs'') w))"
  using assms by (auto simp: on_finish_def shouldAudit_def Let_def emit_def split: option.splits)

lemma auditData_body:
  "get_prop (al_details (auditData now rb req res tid)) ''body'' = Some (sanitizeBody (body req))"
  by (simp add: auditData_def)

lemma serve_route:
  assumes "before_route e req w = (Inr req3, w3)"
      and "protected_url req"
      and "finish_outcome (node_env e) (h req3 w3) = (r, w4)"
  shows "\<exists>tid row. tenantId req3 = Some tid \<and> body req3 = body req
           \<and> row = auditData (clock e) rb req3 r tid
           \<and> serve e rb h req w =
               (r, case audit_rejects e row of
                     None \<Rightarrow> (emit (Query ''INSERT audit_logs'') w4)\<lparr>audit_logs := audit_logs w4 @ [row]\<rparr>
                   | Some err \<Rightarrow> console_error (''Audit log insertion failed: '' @ err)
                                  (emit (Query ''INSERT audit_logs'') w4))"
proof -
  from before_route_Inr [OF assms(1,2)] obtain u tid where
    tid: "tid \<noteq> []" and r3: "req3 = req\<lparr>user := Some u, tenantId := Some tid\<rparr>"
    by blast
  have t3: "tenantId req3 = Some tid" and u3: "user req3 = Some u" and b3: "body req3 = body req"
    using r3 by simp_all
  have s: "serve e rb h req w = (r, on_finish (audit_rejects e) (clock e) rb req3 r w4)"
    using assms(1,3) by (simp add: serve_def dispatch_def)
  show ?thesis
    unfolding s on_finish_user [OF t3 tid u3] using t3 b3 by blast
qed

lemma dispatch_audit_rejects:
  "dispatch (e\<lparr>audit_rejects := f\<rparr>) h req w = dispatch e h req w"
  by (simp add: dispatch_def before_route_def cong: prod.case_cong step.case_cong sum.case_cong)

text \<open>
  Claim C4, amended. For a request that reaches its route, whatever the handler does
  and whether it sends a response or throws, the recorder builds one audit row and
  offers it to the store once: an accepted row is the one row added to \<open>audit_logs\<close>, a
  rejected row leaves a line on the console. The row is built before it is offered, and
  its \<open>body\<close> detail is \<open>sanitizeBody\<close> of the request body: of the top-level properties of
  the body, those named \<open>password\<close>, \<open>password_hash\<close> or \<open>token\<close> whose value is truthy
  read \<open>[REDACTED]\<close>, and every other top-level property is kept as sent, with whatever
  it contains.
\<close>

theorem audit_entry_shallow_redaction:
  assumes "before_route e req w = (Inr req3, w3)"
      and "protected_url req"
      and "finish_outcome (node_env e) (h req3 w3) = (r, w4)"
  shows "\<exists>tid row. tenantId req3 = Some tid \<and> row = auditData (clock e) rb req3 r tid
           \<and> serve e rb h req w =
               (r, case audit_rejects e row of
                     None \<Rightarrow> (emit (Query ''INSERT audit_logs'') w4)\<lparr>audit_logs := audit_logs w4 @ [row]\<rparr>
                   | Some err \<Rightarrow> console_error (''Audit log insertion failed: '' @ err)
                                  (emit (Query ''INSERT audit_logs'') w4))
           \<and> get_prop (al_details row) ''body'' = Some (sanitizeBody (body req))
           \<and> (\<forall>kvs. body req = Some (JObj kvs) \<longrightarrow>
                 (\<forall>k v. k \<in> set secret_keys \<and> map_of kvs k = Some v \<and> truthy v \<longrightarrow>
                    get_prop (sanitizeBody (body req)) k = Some (JStr ''[REDACTED]''))
               \<and> (\<forall>k. k \<notin> set secret_keys \<longrightarrow> get_prop (sanitizeBody (body req)) k = map_of kvs k))"
proof -
  from serve_route [where h = h and rb = rb, OF assms] obtain tid row where
    t3: "tenantId req3 = Some tid" and b3: "body req3 = body req" and
    row: "row = auditData (clock e) rb req3 r tid" and
    s: "serve e rb h req w =
          (r, case audit_rejects e row of
                None \<Rightarrow> (emit (Query ''INSERT audit_logs'') w4)\<lparr>audit_logs := audit_logs w4 @ [row]\<rparr>
              | Some err \<Rightarrow> console_error (''Audit log insertion failed: '' @ err)
                             (emit (Query ''INSERT audit_logs'') w4))"
    by blast
  have "get_prop (al_details row) ''body'' = Some (sanitizeBody (body req))"
    by (simp add: row auditData_body b3)
  moreover have "\<forall>kvs. body req = Some (JObj kvs) \<longrightarrow>
                 (\<forall>k v. k \<in> set secret_keys \<and> map_of kvs k = Some v \<and> truthy v \<longrightarrow>
                    get_prop (sanitizeBody (body req)) k = Some (JStr ''[REDACTED]''))
               \<and> (\<forall>k. k \<notin> set secret_keys \<longrightarrow> get_prop (sanitizeBody (body req)) k = map_of kvs k)"
    using sanitizeBody_redacts sanitizeBody_keeps by auto
  ultimately show ?thesis using t3 row s by blast
qed

theorem audit_entry_shallow_redaction_witness:
  "get_prop (sanitizeBody (body integration_request)) ''password'' = Some (JStr ''[REDACTED]'')
   \<and> get_prop (sanitizeBody (body integration_request)) ''name'' = Some (JStr ''SAP'')
   \<and> (\<exists>row. audit_logs (snd (serve demo_env None demo_handler integration_request demo_world)) = [row]
          \<and> get_prop (al_details row) ''body'' = Some (sanitizeBody (body integration_request)))"
proof -
  let ?req3 = "as_alice integration_request"
  let ?w3 = "routed demo_world"
  let ?r = "\<lparr>status = 200, payload = JObj [(''ok'', JBool True)]\<rparr>"
  let ?w4 = "console_error ''handler ran'' ?w3"
  have br: "before_route demo_env integration_request demo_world = (Inr ?req3, ?w3)"
    unfolding integration_request_def by (rule before_route_alice) (simp_all add: startsWith_def demo_env_def)
  have pu: "protected_url integration_request"
    by (simp add: protected_url_def integration_request_def demo_request_def startsWith_def)
  have fo: "finish_outcome (node_env demo_env) (demo_handler ?req3 ?w3) = (?r, ?w4)"
    by (simp add: finish_outcome_def demo_handler_def)
  have b: "body integration_request = Some (JObj
     [(''name'', JStr ''SAP''), (''type'', JStr ''ERP''), (''system'', JStr ''SAP''),
      (''password'', JStr ''top-level''),
      (''configuration'', JObj [(''token'', JStr ''s3cr3t'')])])"
    by (simp add: integration_request_def demo_request_def integration_body_def)
  have acc: "\<And>row. audit_rejects demo_env row = None" by (simp add: demo_env_def)
  have al: "audit_logs ?w4 = []"
    by (simp add: console_error_def routed_def emit_def demo_world_def)
  from audit_entry_shallow_redaction [where h = demo_handler and rb = None, OF br pu fo] obtain tid row where
    s: "serve demo_env None demo_handler integration_request demo_world =
          (?r, case audit_rejects demo_env row of
                 None \<Rightarrow> (emit (Query ''INSERT audit_logs'') ?w4)\<lparr>audit_logs := audit_logs ?w4 @ [row]\<rparr>
               | Some err \<Rightarrow> console_error (''Audit log insertion failed: '' @ err)
                              (emit (Query ''INSERT audit_logs'') ?w4))" and
    d: "get_prop (al_details row) ''body'' = Some (sanitizeBody (body integration_request))" and
    k: "\<forall>kvs. body integration_request = Some (JObj kvs) \<longrightarrow>
          (\<forall>k v. k \<in> set secret_keys \<and> map_of kvs k = Some v \<and> truthy v \<longrightarrow>
             get_prop (sanitizeBody (body integration_request)) k = Some (JStr ''[REDACTED]''))
        \<and> (\<forall>k. k \<notin> set secret_keys \<longrightarrow> get_prop (sanitizeBody (body integration_request)) k = map_of kvs k)"
    by blast
  from k b have k1: "get_prop (sanitizeBody (body integration_request)) ''password'' = Some (JStr ''[REDACTED]'')"
    by (simp add: secret_keys_def)
  from k b have k2: "get_prop (sanitizeBody (body integration_request)) ''name'' = Some (JStr ''SAP'')"
    by (simp add: secret_keys_def)
  from s have "audit_logs (snd (serve demo_env None demo_handler integration_request demo_world)) = [row]"
    by (simp add: acc al)
  with d k1 k2 show ?thesis by blast
qed

text \<open>
  The claim as stated fails for a secret below the top level: the token inside
  \<open>configuration\<close> is stored as sent, next to the redacted top-level password.
\<close>

theorem nested_secret_is_stored:
  "map (\<lambda>row. get_prop (al_details row) ''body'')
     (audit_logs (snd (serve demo_env None demo_handler integration_request demo_world)))
   = [Some (JObj [(''name'', JStr ''SAP''), (''type'', JStr ''ERP''), (''system'', JStr ''SAP''),
                  (''password'', JStr ''[REDACTED]''),
                  (''configuration'', JObj [(''token'', JStr ''s3cr3t'')])])]"
proof -
  have br: "before_route demo_env integration_request demo_world
              = (Inr (as_alice integration_request), routed demo_world)"
    unfolding integration_request_def by (rule before_route_alice) (simp_all add: startsWith_def demo_env_def)
  have "serve demo_env None demo_handler integration_request demo_world
          = (\<lparr>status = 200, payload = JObj [(''ok'', JBool True)]\<rparr>,
             on_finish (audit_rejects demo_env) (clock demo_env) None (as_alice integration_request)
               \<lparr>status = 200, payload = JObj [(''ok'', JBool True)]\<rparr>
               (console_error ''handler ran'' (routed demo_world)))"
    by (simp add: serve_def dispatch_def br finish_outcome_def demo_handler_def)
  then have "audit_logs (snd (serve demo_env None demo_handler integration_request demo_world))
          = [auditData 0 None (as_alice integration_request)
               \<lparr>status = 200, payload = JObj [(''ok'', JBool True)]\<rparr> ''tenant-a'']"
    by (simp add: on_finish_def shouldAudit_def as_alice_def demo_env_def console_error_def
          routed_def emit_def demo_world_def)
  then show ?thesis
    by (simp add: auditData_def as_alice_def integration_request_def demo_request_def
          integration_body_def sanitizeBody_def redact_def)
qed

text \<open>
  Claim C5. When the store rejects the audit row of a request that reached its route,
  the response is the one the handler (or the error handler) produced, the same as with
  a store that accepts the row; the world is the one the handler left, but for the trace
  and the console; and the last console line reports the failed insertion.
\<close>

theorem audit_failure_keeps_response:
  assumes "before_route e req w = (Inr req3, w3)"
      and "protected_url req"
      and "finish_outcome (node_env e) (h req3 w3) = (r, w4)"
      and "tenantId req3 = Some tid"
      and "audit_rejects e (auditData (clock e) rb req3 r tid) = Some err"
  shows "serve e rb h req w =
           (r, console_error (''Audit log insertion failed: '' @ err) (emit (Query ''INSERT audit_logs'') w4))
       \<and> fst (serve (e\<lparr>audit_rejects := (\<lambda>row. None)\<rparr>) rb h req w) = r
       \<and> (snd (serve e rb h req w))\<lparr>console := console w4, trace := trace w4\<rparr> = w4
       \<and> last (console (snd (serve e rb h req w))) = ''Audit log insertion failed: '' @ err"
proof -
  from serve_route [where h = h and rb = rb, OF assms(1,2,3)] assms(4,5)
  have s: "serve e rb h req w =
           (r, console_error (''Audit log insertion failed: '' @ err) (emit (Query ''INSERT audit_logs'') w4))"
    by auto
  have d: "dispatch e h req w = ((r, req3), w4)"
    using assms(1,3) by (simp add: dispatch_def)
  have "fst (serve (e\<lparr>audit_rejects := (\<lambda>row. None)\<rparr>) rb h req w) = r"
    by (simp add: serve_def dispatch_audit_rejects d)
  with s show ?thesis by (simp add: console_error_def emit_def)
qed


theorem audit_failure_keeps_response_witness:
  "serve failing_audit_env None demo_handler integration_request demo_world =
     (\<lparr>status = 200, payload = JObj [(''ok'', JBool True)]\<rparr>,
      console_error ''Audit log insertion failed: no partition of relation audit_logs found for row''
        (emit (Query ''INSERT audit_logs'') (console_error ''handler ran'' (routed demo_world))))
   \<and> fst (serve demo_env None demo_handler integration_request demo_world)
       = \<lparr>status = 200, payload = JObj [(''ok'', JBool True)]\<rparr>"
proof -
  let ?req3 = "as_alice integration_request"
  let ?w3 = "routed demo_world"
  let ?r = "\<lparr>status = 200, payload = JObj [(''ok'', JBool True)]\<rparr>"
  let ?w4 = "console_error ''handler ran'' ?w3"
  have br: "before_route failing_audit_env integration_request demo_world = (Inr ?req3, ?w3)"
    unfolding integration_request_def
    by (rule before_route_alice) (simp_all add: startsWith_def demo_env_def failing_audit_env_def)
  have pu: "protected_url integration_request"
    by (simp add: protected_url_def integration_request_def demo_request_def startsWith_def)
  have fo: "finish_outcome (node_env failing_audit_env) (demo_handler ?req3 ?w3) = (?r, ?w4)"
    by (simp add: finish_outcome_def demo_handler_def)
  have t: "tenantId ?req3 = Some ''tenant-a''" by (simp add: as_alice_def)
  have rj: "audit_rejects failing_audit_env (auditData (clock failing_audit_env) None ?req3 ?r ''tenant-a'')
              = Some ''no partition of relation audit_logs found for row''"
    by (simp add: failing_audit_env_def)
  have e: "failing_audit_env\<lparr>audit_rejects := (\<lambda>row. None)\<rparr> = demo_env"
    by (simp add: failing_audit_env_def demo_env_def)
  from audit_failure_keeps_response [where h = demo_handler and rb = None, OF br pu fo t rj]
  show ?thesis by (simp add: e)
qed

section \<open>Properties of the purchase orders\<close>

lemma syncPOToERP_fst: "fst (syncPOToERP se i sys w) = sync_error se i sys"
  by (simp add: syncPOToERP_def sync_error_def success_log_def Let_def split: option.splits)


lemma syncPOToERP_trace:
  "\<exists>post. trace (snd (syncPOToERP se i sys w)) = trace w @ ErpSync i (erp_name sys) # post"
  by (simp add: syncPOToERP_def Let_def emit_def erp_name_def split: option.splits)

lemma syncPOToERP_calls:
  "length (filter (\<lambda>ev. case ev of ErpSync a b \<Rightarrow> True | _ \<Rightarrow> False) (trace (snd (syncPOToERP se i sys w))))
     = Suc (length (filter (\<lambda>ev. case ev of ErpSync a b \<Rightarrow> True | _ \<Rightarrow> False) (trace w)))"
  by (simp add: syncPOToERP_def Let_def emit_def split: option.splits)


lemma set_failed_id [simp]: "po_id (set_failed i m r) = po_id r"
  by (simp add: set_failed_def)

lemma set_synced_id [simp]: "po_id (set_synced i r) = po_id r"
  by (simp add: set_synced_def)

lemma find_po_fresh:
  assumes "i \<notin> set (map po_id rows)" and "\<And>r. po_id (f r) = po_id r"
  shows "filter (\<lambda>r. po_id r = i) (map f (rows @ [po])) = filter (\<lambda>r. po_id r = i) [f po]"
  using assms by (induction rows) auto












lemmas demo_po_defs =
  procurement_create_def procurement_sync_def guarded_def authorize_def
  create_purchase_order_def sync_purchase_order_def select_po_def syncPOToERP_def
  new_po_def insert_check_def is_vendor_def body_prop_def json_opt_def default_to_def
  the_tenant_def the_user_id_def emit_def console_error_def set_synced_def set_failed_def
  schema_log_rejects_def success_log_def erp_name_def po_json_def opt_str_def
  po_request_def sync_request_def as_alice_def alice_def demo_user_def demo_request_def po_body_def
  demo_po_env_def demo_sync_env_def lenient_sync_env_def demo_po_id_def demo_world_def
  digit_char_def


lemma created_orders:
  "purchase_orders w_created =
     [\<lparr>po_id = demo_po_id, po_tenant_id = ''tenant-a'', po_number = ''PO-2026-1'',
       po_contract_id = None, po_vendor_id = Some (JStr ''vendor-a''),
       po_status = ''draft'', po_total_amount = Some (JNum 1200),
       po_currency = Some (JStr ''USD''),
       po_line_items = Some (JArr [JObj [(''sku'', JStr ''A-1''), (''quantity'', JNum 3)]]),
       po_erp_system = Some (JStr ''SAP''),
       po_erp_po_id = Some ''ERP-0b6f5c1e'',
       po_erp_sync_status = Some ''failed'',
       po_erp_sync_error = Some ''null value in column integration_id violates not-null constraint'',
       po_created_by = ''user-a''\<rparr>]"
  by (simp add: w_created_def demo_po_defs Let_def)






lemma erp_calls_query [simp]: "erp_calls (emit (Query q) w) = erp_calls w"
  by (simp add: erp_calls_def emit_def)


lemma set_synced_twice [simp]: "set_synced i (set_synced i r) = set_synced i r"
  by (simp add: set_synced_def)

lemma set_synced_keeps [simp]:
  "po_tenant_id (set_synced i r) = po_tenant_id r"
  "po_erp_system (set_synced i r) = po_erp_system r"
  by (simp_all add: set_synced_def)









section \<open>Properties of the penalties\<close>

lemma penalties_emit [simp]: "penalties (emit e w) = penalties w"
  by (simp add: emit_def)

lemma penalties_console_error [simp]: "penalties (console_error l w) = penalties w"
  by (simp add: console_error_def)

lemma guarded_cases:
  assumes "guarded roles h req w = (out, w1)"
  shows "w1 = w \<or> (h req w = (out, w1) \<and> (\<exists>u. user req = Some u \<and> ru_role u \<in> set roles))"
  using assms
  by (auto simp: guarded_def authorize_def split: option.splits if_splits step.splits)

lemma get_contract_penalties: "penalties (snd (get_contract req w)) = penalties w"
  by (simp add: get_contract_def Let_def split: list.splits prod.splits)

lemma syncPOToERP_penalties: "penalties (snd (syncPOToERP se i sys w)) = penalties w"
  by (simp add: syncPOToERP_def Let_def split: option.splits)

lemma create_purchase_order_penalties:
  "penalties (snd (create_purchase_order pe req w)) = penalties w"
proof -
  have s: "\<And>se i sys w0. penalties (case syncPOToERP se i sys w0 of
              (None, w4) \<Rightarrow> w4
            | (Some msg, w4) \<Rightarrow>
                emit (Query ''UPDATE purchase_orders'')
                  ((console_error (''ERP sync error: '' @ msg) w4)
                     \<lparr>purchase_orders := map (set_failed i msg) (purchase_orders w4)\<rparr>)) = penalties w0"
    using syncPOToERP_penalties by (auto split: prod.splits option.splits) (metis snd_conv)+
  show ?thesis
    by (simp add: create_purchase_order_def Let_def s split: option.splits)
qed

lemma sync_purchase_order_penalties:
  "penalties (snd (sync_purchase_order se req w)) = penalties w"
  using syncPOToERP_penalties
  by (auto simp: sync_purchase_order_def Let_def split: list.splits prod.splits option.splits)
     (metis penalties_emit snd_conv)+

lemma list_penalties_penalties: "penalties (snd (list_penalties req w)) = penalties w"
  by (simp add: list_penalties_def)

lemma create_assessment_penalties:
  "penalties (snd (create_assessment re req w)) = penalties w"
  by (simp add: create_assessment_def Let_def updateVendorMaster_def checkRiskThresholds_def
           split: prod.splits option.splits attempt.splits list.splits)

lemma override_score_penalties:
  "penalties (snd (override_score oe req w)) = penalties w"
  by (simp add: override_score_def Let_def split: list.splits)


lemma guarded_frame:
  assumes "\<And>req w. penalties (snd (h req w)) = penalties w"
  shows "penalties (snd (guarded roles h req w)) = penalties w"
  using assms by (simp add: guarded_def split: step.splits)

lemma new_penalty_id [simp]: "pen_id (new_penalty pe req) = pen_new_id pe"
  by (simp add: new_penalty_def)

lemma new_penalty_status [simp]: "pen_status (new_penalty pe req) = ''pending''"
  by (simp add: new_penalty_def)

lemma create_penalty_penalties:
  "penalties (snd (create_penalty pe req w)) = penalties w
   \<or> (pen_new_id pe \<notin> set (map pen_id (penalties w))
      \<and> penalties (snd (create_penalty pe req w)) = penalties w @ [new_penalty pe req])"
  by (simp add: create_penalty_def Let_def insert_check_def split: option.splits)

lemma approve_penalty_penalties:
  "penalties (snd (approve_penalty req w)) = penalties w
   \<or> penalties (snd (approve_penalty req w)) = map (set_approved req) (penalties w)"
  by (simp add: approve_penalty_def Let_def split: list.splits)

lemma set_approved_id [simp]: "pen_id (set_approved req r) = pen_id r"
  by (simp add: set_approved_def)

lemma run_penalties:
  "penalties (snd (run op req w)) = penalties w
   \<or> (\<exists>pe. op = CreatePenalty pe \<and> is_admin req
         \<and> pen_new_id pe \<notin> set (map pen_id (penalties w))
         \<and> penalties (snd (run op req w)) = penalties w @ [new_penalty pe req])
   \<or> (op = ApprovePenalty \<and> is_admin req
         \<and> penalties (snd (run op req w)) = map (set_approved req) (penalties w))"
proof (cases op)
  case GetContract
  then show ?thesis by (simp add: get_contract_penalties)
next
  case (CreatePurchaseOrder pe)
  then show ?thesis
    by (simp add: procurement_create_def guarded_frame create_purchase_order_penalties)
next
  case (SyncPurchaseOrder se)
  then show ?thesis
    by (simp add: procurement_sync_def guarded_frame sync_purchase_order_penalties)
next
  case ListPenalties
  then show ?thesis by (simp add: performance_list_penalties_def list_penalties_penalties)
next
  case (CreatePenalty pe)
  obtain out w1 where r: "guarded [''buyer_admin''] (create_penalty pe) req w = (out, w1)"
    by (cases "guarded [''buyer_admin''] (create_penalty pe) req w")
  from guarded_cases [OF r] create_penalty_penalties [of pe req w] r CreatePenalty
  show ?thesis
    by (auto simp: performance_create_penalty_def is_admin_def)
next
  case ApprovePenalty
  obtain out w1 where r: "guarded [''buyer_admin''] approve_penalty req w = (out, w1)"
    by (cases "guarded [''buyer_admin''] approve_penalty req w")
  from guarded_cases [OF r] approve_penalty_penalties [of req w] r ApprovePenalty
  show ?thesis
    by (auto simp: performance_approve_penalty_def is_admin_def)
next
  case (CreateAssessment re)
  then show ?thesis
    by (simp add: risk_create_assessment_def guarded_frame create_assessment_penalties)
next
  case (OverrideScore oe)
  then show ?thesis
    by (simp add: rfp_override_score_def guarded_frame override_score_penalties)
qed

text \<open>
  Claim C8. Let the ids of the penalties be distinct, as their primary key makes them,
  and let any route of the model run on any request. The ids stay distinct and no
  penalty is removed. A penalty that is new after the run has the status \<open>pending\<close>,
  whatever the request body says, and the route was the creation of a penalty. A
  penalty that was \<open>pending\<close> before the run and is \<open>approved\<close> after it was approved by
  the approve route, called by a \<open>buyer_admin\<close> of the penalty's tenant for this
  penalty's id.
\<close>

theorem only_approve_approves:
  assumes "distinct (map pen_id (penalties w))"
  shows "distinct (map pen_id (penalties (snd (run op req w))))
       \<and> (\<forall>p \<in> set (penalties w). \<exists>p1 \<in> set (penalties (snd (run op req w))). pen_id p1 = pen_id p)
       \<and> (\<forall>p1 \<in> set (penalties (snd (run op req w))).
             pen_id p1 \<notin> set (map pen_id (penalties w)) \<longrightarrow>
               pen_status p1 = ''pending'' \<and> (\<exists>pe. op = CreatePenalty pe))
       \<and> (\<forall>p \<in> set (penalties w). \<forall>p1 \<in> set (penalties (snd (run op req w))).
             pen_id p1 = pen_id p \<and> pen_status p = ''pending'' \<and> pen_status p1 = ''approved'' \<longrightarrow>
               op = ApprovePenalty \<and> is_admin req
               \<and> params_id req = Some (pen_id p) \<and> the_tenant req = pen_tenant_id p)"
proof -
  let ?after = "penalties (snd (run op req w))"
  consider (same) "?after = penalties w"
    | (created) pe where "op = CreatePenalty pe" "is_admin req"
        "pen_new_id pe \<notin> set (map pen_id (penalties w))"
        "?after = penalties w @ [new_penalty pe req]"
    | (approved) "op = ApprovePenalty" "is_admin req"
        "?after = map (set_approved req) (penalties w)"
    using run_penalties [of op req w] by blast
  then show ?thesis
  proof cases
    case same
    have u: "p1 = p" if "p \<in> set (penalties w)" "p1 \<in> set (penalties w)" "pen_id p1 = pen_id p" for p p1
      using that assms by (meson distinct_map inj_onD)
    have t: "op = ApprovePenalty \<and> is_admin req
             \<and> params_id req = Some (pen_id p) \<and> the_tenant req = pen_tenant_id p"
      if h: "p \<in> set (penalties w)" "p1 \<in> set ?after" "pen_id p1 = pen_id p"
            "pen_status p = ''pending''" "pen_status p1 = ''approved''" for p p1
    proof -
      from h(2) same have "p1 \<in> set (penalties w)" by simp
      from u [OF h(1) this h(3)] h(4,5) show ?thesis by simp
    qed
    have d: "distinct (map pen_id ?after)" using same assms by simp
    have k: "\<forall>p \<in> set (penalties w). \<exists>p1 \<in> set ?after. pen_id p1 = pen_id p"
      using same by auto
    have n: "\<forall>p1 \<in> set ?after. pen_id p1 \<notin> set (map pen_id (penalties w)) \<longrightarrow>
               pen_status p1 = ''pending'' \<and> (\<exists>pe. op = CreatePenalty pe)"
      using same by auto
    from d k n t show ?thesis by blast
  next
    case created
    have id: "pen_id (new_penalty pe req) = pen_new_id pe"
      and st: "pen_status (new_penalty pe req) = ''pending''"
      by simp_all
    have u: "p1 = p" if "p \<in> set (penalties w)" "p1 \<in> set (penalties w)" "pen_id p1 = pen_id p" for p p1
      using that assms by (meson distinct_map inj_onD)
    have d: "distinct (map pen_id ?after)"
      using created(3,4) assms by (simp add: id)
    have k: "\<forall>p \<in> set (penalties w). \<exists>p1 \<in> set ?after. pen_id p1 = pen_id p"
      using created(4) by auto
    have n: "\<forall>p1 \<in> set ?after. pen_id p1 \<notin> set (map pen_id (penalties w)) \<longrightarrow>
               pen_status p1 = ''pending'' \<and> (\<exists>pe. op = CreatePenalty pe)"
      using created(1,4) st by auto
    have t: "op = ApprovePenalty \<and> is_admin req
             \<and> params_id req = Some (pen_id p) \<and> the_tenant req = pen_tenant_id p"
      if h: "p \<in> set (penalties w)" "p1 \<in> set ?after" "pen_id p1 = pen_id p"
            "pen_status p = ''pending''" "pen_status p1 = ''approved''" for p p1
    proof (cases "p1 \<in> set (penalties w)")
      case True
      from u [OF h(1) True h(3)] h(4,5) show ?thesis by simp
    next
      case False
      with h(2) created(4) have "p1 = new_penalty pe req" by simp
      with h(5) show ?thesis by simp
    qed
    from d k n t show ?thesis by blast
  next
    case approved
    have ids: "map pen_id ?after = map pen_id (penalties w)"
      by (simp add: approved(3) comp_def)
    have u: "p' = p" if "p \<in> set (penalties w)" "p' \<in> set (penalties w)" "pen_id p' = pen_id p" for p p'
      using that assms by (meson distinct_map inj_onD)
    have d: "distinct (map pen_id ?after)" using ids assms by simp
    have k: "\<forall>p \<in> set (penalties w). \<exists>p1 \<in> set ?after. pen_id p1 = pen_id p"
      using approved(3) by force
    have n: "\<forall>p1 \<in> set ?after. pen_id p1 \<notin> set (map pen_id (penalties w)) \<longrightarrow>
               pen_status p1 = ''pending'' \<and> (\<exists>pe. op = CreatePenalty pe)"
      using ids by (metis image_eqI list.set_map)
    have t: "op = ApprovePenalty \<and> is_admin req
             \<and> params_id req = Some (pen_id p) \<and> the_tenant req = pen_tenant_id p"
      if h: "p \<in> set (penalties w)" "p1 \<in> set ?after" "pen_id p1 = pen_id p"
            "pen_status p = ''pending''" "pen_status p1 = ''approved''" for p p1
    proof -
      from h(2) approved(3) obtain p' where p': "p' \<in> set (penalties w)" "p1 = set_approved req p'"
        by auto
      with h(3) have "pen_id p' = pen_id p" by simp
      from u [OF h(1) p'(1) this] have "p1 = set_approved req p" using p'(2) by simp
      with h(4,5) have "approvable req p"
        by (auto simp: set_approved_def split: if_splits)
      then show ?thesis using approved(1,2) by (auto simp: approvable_def)
    qed
    from d k n t show ?thesis by blast
  qed
qed


lemma penalized:
  "penalties w_penalized =
     [\<lparr>pen_id = demo_pen_id, pen_tenant_id = ''tenant-a'', pen_vendor_id = Some (JStr ''vendor-a''),
       pen_contract_id = None, pen_penalty_type = Some (JStr ''late_delivery''),
       pen_amount = Some (JNum 500), pen_currency = JStr ''USD'',
       pen_reason = Some (JStr ''Delivery was late''), pen_ai_suggested = False,
       pen_ai_rationale = ''No bias patterns detected'', pen_status = ''pending'',
       pen_approved_by = None, pen_created_by = ''user-a''\<rparr>]"
  by (simp add: w_penalized_def performance_create_penalty_def guarded_def authorize_def
        create_penalty_def new_penalty_def insert_check_def is_vendor_def body_prop_def
        json_opt_def the_tenant_def the_user_id_def emit_def checkBiasPatterns_rationale_def
        pen_request_def as_alice_def alice_def demo_user_def demo_request_def pen_body_def
        demo_pen_env_def demo_world_def Let_def)

lemma approved:
  "map pen_status (penalties w_approved) = [''approved'']"
  by (simp add: w_approved_def penalized performance_approve_penalty_def guarded_def
        authorize_def approve_penalty_def approvable_def set_approved_def the_tenant_def
        the_user_id_def emit_def approve_request_def as_alice_def alice_def demo_user_def
        demo_request_def Let_def)

theorem only_approve_approves_witness:
  "map pen_status (penalties w_penalized) = [''pending'']
   \<and> map pen_ai_suggested (penalties w_penalized) = [False]
   \<and> map pen_status (penalties w_approved) = [''approved'']
   \<and> is_admin approve_request
   \<and> params_id approve_request = Some demo_pen_id
   \<and> the_tenant approve_request = ''tenant-a''
   \<and> distinct (map pen_id (penalties w_approved))
   \<and> distinct (map pen_id (penalties w_penalized))"
proof -
  have d0: "distinct (map pen_id (penalties demo_world))" by (simp add: demo_world_def)
  have d1: "distinct (map pen_id (penalties w_penalized))" by (simp add: penalized)
  from only_approve_approves [OF d0, of "CreatePenalty demo_pen_env" pen_request]
  have c: "distinct (map pen_id (penalties w_penalized))"
    by (simp add: w_penalized_def)
  obtain p where p: "penalties w_penalized = [p]" "pen_id p = demo_pen_id"
    "pen_tenant_id p = ''tenant-a''" "pen_status p = ''pending''" "pen_ai_suggested p = False"
    by (simp add: penalized)
  from approved obtain p1 where p1: "penalties w_approved = [p1]" "pen_status p1 = ''approved''"
    by (cases "penalties w_approved") auto
  from only_approve_approves [OF d1, of ApprovePenalty approve_request]
  have a: "distinct (map pen_id (penalties w_approved))"
    and k: "\<forall>p \<in> set (penalties w_penalized). \<exists>p1 \<in> set (penalties w_approved). pen_id p1 = pen_id p"
    and t: "\<forall>p \<in> set (penalties w_penalized). \<forall>p1 \<in> set (penalties w_approved).
             pen_id p1 = pen_id p \<and> pen_status p = ''pending'' \<and> pen_status p1 = ''approved'' \<longrightarrow>
               ApprovePenalty = ApprovePenalty \<and> is_admin approve_request
               \<and> params_id approve_request = Some (pen_id p)
               \<and> the_tenant approve_request = pen_tenant_id p"
    by (simp_all add: w_approved_def)
  from k p p1 have "pen_id p1 = pen_id p" by simp
  with t p p1 have "is_admin approve_request \<and> params_id approve_request = Some demo_pen_id
                    \<and> the_tenant approve_request = ''tenant-a''"
    by simp
  with a c p p1 show ?thesis by simp
qed

section \<open>Properties of the risk assessments\<close>

lemma fetchRiskData_cases:
  "\<exists>n\<le>2. snd (fetchRiskData p) = backoff n
      \<and> (\<forall>j<n. \<exists>m. p j = Failed m)
      \<and> ((\<exists>s. p n = Returned s \<and> fst (fetchRiskData p) = Some (Returned s))
         \<or> (n = 2 \<and> (\<exists>m. p 2 = Failed m \<and> fst (fetchRiskData p) = Some (Failed (surfaced m)))))"
proof (cases "p 0")
  case (Returned s)
  then have "fetchRiskData p = (Some (Returned s), [])"
    by (simp add: fetchRiskData_def maxAttempts_def digit_char_def surfaced_def)
  with Returned show ?thesis
    by (intro exI [of _ 0]) (simp add: backoff_def)
next
  case f0: (Failed m0)
  show ?thesis
  proof (cases "p 1")
    case (Returned s)
    with f0 have "fetchRiskData p = (Some (Returned s), [2000])"
      by (simp add: fetchRiskData_def maxAttempts_def digit_char_def surfaced_def)
    with Returned f0 show ?thesis
      by (intro exI [of _ 1]) (simp add: backoff_def)
  next
    case f1: (Failed m1)
    have below: "\<forall>j<2. \<exists>m. p j = Failed m"
      using f0 f1 by (auto simp: less_Suc_eq numeral_2_eq_2)
    have b2: "backoff 2 = [2000, 4000]"
      by (simp add: backoff_def upt_rec numeral_2_eq_2)
    show ?thesis
    proof (cases "p 2")
      case (Returned s)
      then have "p (Suc (Suc 0)) = Returned s" by (simp add: numeral_2_eq_2)
      with f0 f1 have "fetchRiskData p = (Some (Returned s), [2000, 4000])"
        by (simp add: fetchRiskData_def maxAttempts_def digit_char_def surfaced_def)
      with Returned below b2 show ?thesis
        by (intro exI [of _ 2]) simp
    next
      case (Failed m2)
      then have "p (Suc (Suc 0)) = Failed m2" by (simp add: numeral_2_eq_2)
      with f0 f1 have "fetchRiskData p = (Some (Failed (surfaced m2)), [2000, 4000])"
        by (simp add: fetchRiskData_def maxAttempts_def digit_char_def surfaced_def)
      with Failed below b2 show ?thesis
        by (intro exI [of _ 2]) simp
    qed
  qed
qed


lemma fetchRiskData_all_failed:
  assumes "\<forall>j<3. \<exists>m. p j = Failed m"
  shows "\<exists>m. p 2 = Failed m \<and> fetchRiskData p = (Some (Failed (surfaced m)), [2000, 4000])"
proof -
  from assms obtain m0 m1 m2 where "p 0 = Failed m0" "p (Suc 0) = Failed m1" "p (Suc (Suc 0)) = Failed m2"
    by (metis Suc_1 lessI less_Suc_eq numeral_3_eq_3 zero_less_Suc)
  then have "p 2 = Failed m2 \<and> fetchRiskData p = (Some (Failed (surfaced m2)), [2000, 4000])"
    by (simp add: fetchRiskData_def maxAttempts_def digit_char_def surfaced_def numeral_2_eq_2)
  then show ?thesis by blast
qed

text \<open>
  Claim C9. \<open>fetchRiskData\<close> is a total function: its loop ends for every provider. It
  makes at most three attempts. After the \<open>k\<close>-th failed attempt, for \<open>k\<close> = 1 and 2,
  it waits \<open>2 ^ k\<close> seconds and tries again; it returns the first score it gets. When
  all three attempts fail it throws, after waits of 2 and 4 seconds and none after the
  third failure, an error whose message ends with the message of the last failure; the
  route then answers 503 with that message and \<open>retryable: true\<close>, and leaves the tables
  as they were.
\<close>

theorem fetchRiskData_bounded_retry:
  "(\<exists>n\<le>2. snd (fetchRiskData p) = backoff n
      \<and> (\<forall>j<n. \<exists>m. p j = Failed m)
      \<and> ((\<exists>s. p n = Returned s \<and> fst (fetchRiskData p) = Some (Returned s))
         \<or> (n = 2 \<and> (\<exists>m. p 2 = Failed m \<and> fst (fetchRiskData p) = Some (Failed (surfaced m))))))
   \<and> ((\<forall>j<3. \<exists>m. p j = Failed m) \<longrightarrow>
        (\<exists>m. p 2 = Failed m
           \<and> fetchRiskData p = (Some (Failed (surfaced m)), backoff 2)
           \<and> (\<forall>re req w. provider_call re = p \<and> risk_validation_errors re req = [] \<longrightarrow>
                 create_assessment re req w
                   = (Sent (unavailable (surfaced m)), w\<lparr>trace := trace w @ map Sleep (backoff 2)\<rparr>))))"
proof -
  have b2: "backoff 2 = [2000, 4000]"
    by (simp add: backoff_def upt_rec numeral_2_eq_2)
  have "\<exists>m. p 2 = Failed m
           \<and> fetchRiskData p = (Some (Failed (surfaced m)), backoff 2)
           \<and> (\<forall>re req w. provider_call re = p \<and> risk_validation_errors re req = [] \<longrightarrow>
                 create_assessment re req w
                   = (Sent (unavailable (surfaced m)), w\<lparr>trace := trace w @ map Sleep (backoff 2)\<rparr>))"
    if "\<forall>j<3. \<exists>m. p j = Failed m"
  proof -
    from fetchRiskData_all_failed [OF that] obtain m where
      m: "p 2 = Failed m" "fetchRiskData p = (Some (Failed (surfaced m)), [2000, 4000])"
      by blast
    have "create_assessment re req w
            = (Sent (unavailable (surfaced m)), w\<lparr>trace := trace w @ map Sleep (backoff 2)\<rparr>)"
      if "provider_call re = p" "risk_validation_errors re req = []" for re req w
      using that m(2) by (simp add: create_assessment_def unavailable_def b2)
    with m b2 show ?thesis by auto
  qed
  with fetchRiskData_cases [of p] show ?thesis by blast
qed

theorem fetchRiskData_bounded_retry_witness:
  "fetchRiskData always_timeout
     = (Some (Failed ''Failed to fetch risk data after 3 attempts: connect ETIMEDOUT''), [2000, 4000])
   \<and> fetchRiskData second_try = (Some (Returned 62), [2000])"
proof -
  have all: "\<forall>j<3. \<exists>m. always_timeout j = Failed m" by (simp add: always_timeout_def)
  have b2: "backoff 2 = [2000, 4000]"
    by (simp add: backoff_def upt_rec numeral_2_eq_2)
  from fetchRiskData_bounded_retry [of always_timeout] all obtain m where
    "always_timeout 2 = Failed m" "fetchRiskData always_timeout = (Some (Failed (surfaced m)), backoff 2)"
    by blast
  then have a: "fetchRiskData always_timeout
     = (Some (Failed ''Failed to fetch risk data after 3 attempts: connect ETIMEDOUT''), [2000, 4000])"
    by (simp add: always_timeout_def surfaced_def b2)
  from fetchRiskData_bounded_retry [of second_try] obtain n where
    n: "n \<le> 2" "snd (fetchRiskData second_try) = backoff n" "\<forall>j<n. \<exists>m. second_try j = Failed m"
       "(\<exists>s. second_try n = Returned s \<and> fst (fetchRiskData second_try) = Some (Returned s))
        \<or> (n = 2 \<and> (\<exists>m. second_try 2 = Failed m
               \<and> fst (fetchRiskData second_try) = Some (Failed (surfaced m))))"
    by blast
  have "n = 1"
  proof -
    from n(4) have "n \<noteq> 0" by (auto simp: second_try_def split: if_splits)
    moreover have "n < 2"
    proof (rule ccontr)
      assume "\<not> n < 2"
      with n(3) have "\<exists>m. second_try 1 = Failed m" by simp
      then show False by (simp add: second_try_def)
    qed
    ultimately show ?thesis by simp
  qed
  with n(2,4) have "fetchRiskData second_try = (Some (Returned 62), [2000])"
    by (auto simp: second_try_def backoff_def prod_eq_iff)
  with a show ?thesis by simp
qed


lemma calculateRiskLevel_high:
  "(score \<ge> 50) = (calculateRiskLevel score = ''high'' \<or> calculateRiskLevel score = ''critical'')"
  by (simp add: calculateRiskLevel_def)

lemma calculateRiskLevel_low:
  "(score < 50) = (calculateRiskLevel score = ''low'' \<or> calculateRiskLevel score = ''medium'')"
  by (simp add: calculateRiskLevel_def)

lemma updateVendorMaster_frame:
  "vendor_risk_assessments (updateVendorMaster v s l w) = vendor_risk_assessments w"
  "risk_alerts (updateVendorMaster v s l w) = risk_alerts w"
  by (simp_all add: updateVendorMaster_def emit_def split: list.splits)

lemma is_vendor_cong:
  assumes "vendors w1 = vendors w"
  shows "is_vendor w1 v = is_vendor w v"
  by (simp add: is_vendor_def assms cong: option.case_cong json.case_cong)

lemma is_vendor_trace [simp]: "is_vendor (w\<lparr>trace := t\<rparr>) v = is_vendor w v"
  by (rule is_vendor_cong) simp

lemma is_vendor_emit [simp]: "is_vendor (emit e w) v = is_vendor w v"
  by (rule is_vendor_cong) (simp add: emit_def)

lemma create_assessment_run:
  assumes "risk_validation_errors re req = []"
      and "fetchRiskData (provider_call re) = (Some (Returned score), waits)"
      and "is_vendor w (body_prop req ''vendor_id'')"
      and "risk_new_id re \<notin> set (map ra_id (vendor_risk_assessments w))"
  shows "vendor_risk_assessments (snd (create_assessment re req w))
           = vendor_risk_assessments w @ [new_assessment re req score]"
    and "risk_alerts (snd (create_assessment re req w)) = risk_alerts w"
    and "fst (create_assessment re req w) =
           (if score \<ge> 50 then Threw (reference_error ''req'')
            else Sent \<lparr>status = 201,
                       payload = JObj [(''assessment'', assessment_json (new_assessment re req score))]\<rparr>)"
proof -
  have v: "is_vendor w (ra_vendor_id (new_assessment re req score))"
    using assms(3) by (simp add: new_assessment_def)
  have i: "ra_id (new_assessment re req score) = risk_new_id re"
    and l: "ra_risk_level (new_assessment re req score) = calculateRiskLevel score"
    by (simp_all add: new_assessment_def)
  show "vendor_risk_assessments (snd (create_assessment re req w))
           = vendor_risk_assessments w @ [new_assessment re req score]"
    using assms(1,2,4)
    by (simp add: create_assessment_def Let_def insert_check_def v i l checkRiskThresholds_def
          updateVendorMaster_frame emit_def image_iff)
  show "risk_alerts (snd (create_assessment re req w)) = risk_alerts w"
    using assms(1,2,4)
    by (simp add: create_assessment_def Let_def insert_check_def v i l checkRiskThresholds_def
          updateVendorMaster_frame emit_def image_iff)
  show "fst (create_assessment re req w) =
           (if score \<ge> 50 then Threw (reference_error ''req'')
            else Sent \<lparr>status = 201,
                       payload = JObj [(''assessment'', assessment_json (new_assessment re req score))]\<rparr>)"
    using assms(1,2,4) calculateRiskLevel_high [of score]
    by (auto simp: create_assessment_def Let_def insert_check_def v i l checkRiskThresholds_def
          emit_def image_iff)
qed


lemma guarded_admin:
  assumes "is_admin req"
  shows "guarded [''buyer_admin''] h req w = h req w"
  using assms by (auto simp: guarded_def authorize_def is_admin_def split: option.splits)

lemma errorHandler_reference_error:
  "status (errorHandler ne (reference_error ''req'')) = 500"
  "get_prop (payload (errorHandler ne (reference_error ''req''))) ''error'' = Some (JStr ''req is not defined'')"
  "get_prop (payload (errorHandler ne (reference_error ''req''))) ''code'' = Some (JStr ''INTERNAL_ERROR'')"
  by (simp_all add: errorHandler_def reference_error_def startsWith_def)

text \<open>
  Claim C10. Take a request by a \<open>buyer_admin\<close> that passes validation, for an existing
  vendor, for which the provider returns a score and the store accepts the row. The
  assessment is inserted with the level computed from the score. The level is \<open>high\<close>
  or \<open>critical\<close> exactly when the score is at least 50; then \<open>checkRiskThresholds\<close>
  throws the ReferenceError for \<open>req\<close>, the error handler answers 500 with the message
  \<open>req is not defined\<close> and the code \<open>INTERNAL_ERROR\<close>, the inserted row stays and no
  alert is written. For a score below 50 the level is \<open>low\<close> or \<open>medium\<close> and the
  answer is 201 with the row; a 201 is given for no other score.
\<close>

theorem assessment_insert_then_error:
  assumes "risk_validation_errors re req = []"
      and "fetchRiskData (provider_call re) = (Some (Returned score), waits)"
      and "is_vendor w (body_prop req ''vendor_id'')"
      and "risk_new_id re \<notin> set (map ra_id (vendor_risk_assessments w))"
      and "is_admin req"
  shows "vendor_risk_assessments (snd (risk_create_assessment re req w))
           = vendor_risk_assessments w @ [new_assessment re req score]
       \<and> ra_risk_level (new_assessment re req score) = calculateRiskLevel score
       \<and> risk_alerts (snd (risk_create_assessment re req w)) = risk_alerts w
       \<and> ((calculateRiskLevel score = ''high'' \<or> calculateRiskLevel score = ''critical'') = (score \<ge> 50))
       \<and> (score \<ge> 50 \<longrightarrow>
            fst (risk_create_assessment re req w) = Threw (reference_error ''req'')
            \<and> status (fst (finish_outcome ne (risk_create_assessment re req w))) = 500
            \<and> get_prop (payload (fst (finish_outcome ne (risk_create_assessment re req w)))) ''error''
                = Some (JStr ''req is not defined'')
            \<and> get_prop (payload (fst (finish_outcome ne (risk_create_assessment re req w)))) ''code''
                = Some (JStr ''INTERNAL_ERROR''))
       \<and> (score < 50 \<longrightarrow>
            fst (risk_create_assessment re req w)
              = Sent \<lparr>status = 201,
                      payload = JObj [(''assessment'', assessment_json (new_assessment re req score))]\<rparr>
            \<and> (calculateRiskLevel score = ''low'' \<or> calculateRiskLevel score = ''medium''))
       \<and> (\<forall>res. fst (risk_create_assessment re req w) = Sent res \<and> status res = 201 \<longrightarrow> score < 50)"
proof -
  have r: "risk_create_assessment re req w = create_assessment re req w"
    by (simp add: risk_create_assessment_def guarded_admin [OF assms(5)])
  note run = create_assessment_run [OF assms(1-4)]
  have hi: "fst (risk_create_assessment re req w) = Threw (reference_error ''req'')
            \<and> status (fst (finish_outcome ne (risk_create_assessment re req w))) = 500
            \<and> get_prop (payload (fst (finish_outcome ne (risk_create_assessment re req w)))) ''error''
                = Some (JStr ''req is not defined'')
            \<and> get_prop (payload (fst (finish_outcome ne (risk_create_assessment re req w)))) ''code''
                = Some (JStr ''INTERNAL_ERROR'')"
    if "score \<ge> 50"
  proof -
    from that run(3) have t: "fst (create_assessment re req w) = Threw (reference_error ''req'')"
      by simp
    then show ?thesis
      by (simp add: r finish_outcome_def errorHandler_reference_error)
  qed
  have lo: "fst (risk_create_assessment re req w)
              = Sent \<lparr>status = 201,
                      payload = JObj [(''assessment'', assessment_json (new_assessment re req score))]\<rparr>
            \<and> (calculateRiskLevel score = ''low'' \<or> calculateRiskLevel score = ''medium'')"
    if "score < 50"
    using that run(3) calculateRiskLevel_low [of score] by (simp add: r)
  have only: "score < 50" if "fst (risk_create_assessment re req w) = Sent res" for res
    using that run(3) by (auto simp: r split: if_splits)
  have lev: "ra_risk_level (new_assessment re req score) = calculateRiskLevel score"
    by (simp add: new_assessment_def)
  from run(1,2) lev calculateRiskLevel_high [of score] hi lo only show ?thesis
    by (simp add: r)
qed

theorem assessment_insert_then_error_witness:
  "status (fst (finish_outcome None (risk_create_assessment demo_risk_env risk_request demo_world))) = 500
   \<and> get_prop (payload (fst (finish_outcome None
         (risk_create_assessment demo_risk_env risk_request demo_world)))) ''error''
       = Some (JStr ''req is not defined'')
   \<and> map (\<lambda>r. (ra_id r, ra_risk_score r, ra_risk_level r))
         (vendor_risk_assessments (snd (risk_create_assessment demo_risk_env risk_request demo_world)))
       = [(demo_assessment_id, 62, ''high'')]
   \<and> risk_alerts (snd (risk_create_assessment demo_risk_env risk_request demo_world)) = []"
proof -
  have a1: "risk_validation_errors demo_risk_env risk_request = []"
    by (simp add: demo_risk_env_def)
  have a2: "fetchRiskData (provider_call demo_risk_env) = (Some (Returned 62), [2000])"
    by (simp add: demo_risk_env_def fetchRiskData_def maxAttempts_def second_try_def)
  have a3: "is_vendor demo_world (body_prop risk_request ''vendor_id'')"
    by (simp add: is_vendor_def body_prop_def risk_request_def as_alice_def demo_request_def
          demo_world_def)
  have a4: "risk_new_id demo_risk_env \<notin> set (map ra_id (vendor_risk_assessments demo_world))"
    by (simp add: demo_world_def)
  have a5: "is_admin risk_request"
    by (simp add: is_admin_def risk_request_def as_alice_def alice_def demo_user_def)
  have n: "new_assessment demo_risk_env risk_request 62 =
             \<lparr>ra_id = demo_assessment_id, ra_tenant_id = ''tenant-a'',
              ra_vendor_id = Some (JStr ''vendor-a''), ra_risk_score = 62, ra_risk_level = ''high'',
              ra_provider = Some (JStr ''Moodys''),
              ra_provider_data = JObj [(''risk_score'', JNum 62),
                                       (''provider_data'', JObj [(''rating'', JStr ''A'')])]\<rparr>"
    by (simp add: new_assessment_def demo_risk_env_def the_tenant_def body_prop_def risk_request_def
          as_alice_def demo_request_def calculateRiskLevel_def)
  have e: "vendor_risk_assessments demo_world = []" "risk_alerts demo_world = []"
    by (simp_all add: demo_world_def)
  from assessment_insert_then_error [OF a1 a2 a3 a4 a5, of None]
  show ?thesis by (simp add: n e)
qed

section \<open>Properties of tenant isolation\<close>

lemma cross_route:
  "before_route demo_env cross_request cross_world = (Inr (as_alice cross_request), routed cross_world)"
  unfolding cross_request_def
  by (rule before_route_alice) (simp_all add: demo_env_def cross_world_def startsWith_def)

text \<open>
  Claim C1 at the failing input. The evaluation belongs to an RFP of \<open>tenant-b\<close>; the
  caller is resolved to \<open>tenant-a\<close>. \<open>POST /api/v1/rfp/:id/override-score\<close> selects and
  updates the evaluation by its id alone: the answer is 200 with the original score,
  and the score of the other tenant's evaluation is overwritten.
\<close>

theorem override_score_crosses_tenants:
  "evaluation_tenants cross_world
     \<lparr>es_id = cross_eval_id, es_response_id = ''response-b'', es_criterion = ''cost'',
      es_score = JNum 40\<rparr> = [''tenant-b'']
   \<and> tenantId (as_alice cross_request) = Some ''tenant-a''
   \<and> fst (serve demo_env None (rfp_override_score demo_ov_env) cross_request cross_world)
       = \<lparr>status = 200, payload = JObj
            [(''override'', JObj
                [(''id'', JStr ''5d0c1a7e-93b2-4e6f-a1d4-000000000009''),
                 (''evaluation_id'', JStr cross_eval_id),
                 (''overridden_by'', JStr ''user-a''), (''original_score'', JNum 40),
                 (''new_score'', JNum 99), (''rationale'', JStr ''better''),
                 (''override_reason'', JNull)]),
             (''message'', JStr ''Score overridden successfully. Override logged for audit.'')]\<rparr>
   \<and> ai_evaluation_scores (snd (serve demo_env None (rfp_override_score demo_ov_env) cross_request cross_world))
       = [\<lparr>es_id = cross_eval_id, es_response_id = ''response-b'', es_criterion = ''cost'',
           es_score = JNum 99\<rparr>]"
proof -
  have t: "evaluation_tenants cross_world
     \<lparr>es_id = cross_eval_id, es_response_id = ''response-b'', es_criterion = ''cost'',
      es_score = JNum 40\<rparr> = [''tenant-b'']"
    by (simp add: evaluation_tenants_def cross_world_def demo_world_def)
  have a: "tenantId (as_alice cross_request) = Some ''tenant-a''"
    by (simp add: as_alice_def)
  have h: "rfp_override_score demo_ov_env (as_alice cross_request) (routed cross_world) =
            (Sent \<lparr>status = 200, payload = JObj
               [(''override'', JObj
                   [(''id'', JStr ''5d0c1a7e-93b2-4e6f-a1d4-000000000009''),
                    (''evaluation_id'', JStr cross_eval_id),
                    (''overridden_by'', JStr ''user-a''), (''original_score'', JNum 40),
                    (''new_score'', JNum 99), (''rationale'', JStr ''better''),
                    (''override_reason'', JNull)]),
                (''message'', JStr ''Score overridden successfully. Override logged for audit.'')]\<rparr>,
             cross_after)"
    by (simp add: prod_eq_iff cross_after_def rfp_override_score_def guarded_def authorize_def override_score_def
          override_json_def body_prop_def json_opt_def the_user_id_def emit_def routed_def
          as_alice_def alice_def demo_user_def cross_request_def demo_request_def
          demo_ov_env_def cross_world_def demo_world_def cross_eval_id_def Let_def)
  have s: "ai_evaluation_scores cross_after
            = [\<lparr>es_id = cross_eval_id, es_response_id = ''response-b'', es_criterion = ''cost'',
                es_score = JNum 99\<rparr>]"
    by (simp add: cross_after_def rfp_override_score_def guarded_def authorize_def override_score_def
          body_prop_def json_opt_def the_user_id_def emit_def routed_def
          as_alice_def alice_def demo_user_def cross_request_def demo_request_def
          demo_ov_env_def cross_world_def demo_world_def cross_eval_id_def Let_def)
  have f: "ai_evaluation_scores (on_finish sr now rb req res w) = ai_evaluation_scores w"
    for sr now rb req res w
    by (simp add: on_finish_def Let_def emit_def console_error_def split: option.splits)
  have "serve demo_env None (rfp_override_score demo_ov_env) cross_request cross_world
          = (fst (fst (dispatch demo_env (rfp_override_score demo_ov_env) cross_request cross_world)),
             on_finish (audit_rejects demo_env) (clock demo_env) None
               (snd (fst (dispatch demo_env (rfp_override_score demo_ov_env) cross_request cross_world)))
               (fst (fst (dispatch demo_env (rfp_override_score demo_ov_env) cross_request cross_world)))
               (snd (dispatch demo_env (rfp_override_score demo_ov_env) cross_request cross_world)))"
    by (simp add: serve_def split: prod.splits)
  moreover have "dispatch demo_env (rfp_override_score demo_ov_env) cross_request cross_world
          = ((\<lparr>status = 200, payload = JObj
               [(''override'', JObj
                   [(''id'', JStr ''5d0c1a7e-93b2-4e6f-a1d4-000000000009''),
                    (''evaluation_id'', JStr cross_eval_id),
                    (''overridden_by'', JStr ''user-a''), (''original_score'', JNum 40),
                    (''new_score'', JNum 99), (''rationale'', JStr ''better''),
                    (''override_reason'', JNull)]),
                (''message'', JStr ''Score overridden successfully. Override logged for audit.'')]\<rparr>,
              as_alice cross_request),
             cross_after)"
    by (simp add: dispatch_def cross_route finish_outcome_def h)
  ultimately show ?thesis using t a s by (simp add: f)
qed


text \<open>
  \<open>GET /contracts/:id\<close> is scoped to the tenant of the request context: when every
  contract with the requested id belongs to another tenant the answer is 404, and a 200
  carries a contract with the requested id that belongs to the caller's tenant.
\<close>

theorem get_contract_tenant_scoped:
  "((\<forall>c \<in> set (contracts w). Some (c_id c) = params_id req \<longrightarrow> c_tenant_id c \<noteq> the_tenant req)
      \<longrightarrow> fst (get_contract req w) = Sent not_found)
   \<and> (\<forall>res. fst (get_contract req w) = Sent res \<and> status res = 200 \<longrightarrow>
         (\<exists>c \<in> set (contracts w). \<exists>fields.
            Some (c_id c) = params_id req \<and> c_tenant_id c = the_tenant req
            \<and> get_prop (payload res) ''contract'' = Some (JObj fields)
            \<and> map_of fields ''id'' = Some (JStr (c_id c))
            \<and> map_of fields ''tenant_id'' = Some (JStr (the_tenant req))))"
proof -
  have a: "fst (get_contract req w) = Sent not_found"
    if "\<forall>c \<in> set (contracts w). Some (c_id c) = params_id req \<longrightarrow> c_tenant_id c \<noteq> the_tenant req"
  proof -
    from that have "filter (\<lambda>c. Some (c_id c) = params_id req \<and> c_tenant_id c = the_tenant req) (contracts w) = []"
      by (auto simp: filter_empty_conv)
    then show ?thesis
      by (simp add: get_contract_def select_contract_def not_found_def Let_def)
  qed
  have b: "\<exists>c \<in> set (contracts w). \<exists>fields.
            Some (c_id c) = params_id req \<and> c_tenant_id c = the_tenant req
            \<and> get_prop (payload res) ''contract'' = Some (JObj fields)
            \<and> map_of fields ''id'' = Some (JStr (c_id c))
            \<and> map_of fields ''tenant_id'' = Some (JStr (the_tenant req))"
    if h: "fst (get_contract req w) = Sent res" "status res = 200" for res
  proof (cases "select_contract w (params_id req) (the_tenant req)")
    case Nil
    with h(1) have "res = not_found" by (simp add: get_contract_def not_found_def Let_def)
    with h(2) show ?thesis by (simp add: not_found_def)
  next
    case (Cons cv rest)
    obtain c v where cv: "cv = (c, v)" by (cases cv)
    have "(c, v) \<in> set (select_contract w (params_id req) (the_tenant req))"
      using Cons cv by simp
    then have c: "c \<in> set (contracts w)" "Some (c_id c) = params_id req" "c_tenant_id c = the_tenant req"
      by (auto simp: select_contract_def)
    from h(1) Cons cv have "get_prop (payload res) ''contract'' = Some (JObj (contract_fields c v @
               [(''clauses'', JArr (map clause_json
                   (filter (\<lambda>cl. Some (cl_contract_id cl) = params_id req) (contract_clauses w)))),
                (''versions'', JArr (map (version_json w)
                   (rev (sort_key cv_version_number
                      (filter (\<lambda>cv. Some (cv_contract_id cv) = params_id req) (contract_versions w))))))]))"
      by (auto simp: get_contract_def Let_def)
    moreover have "map_of (contract_fields c v @ more) ''id'' = Some (JStr (c_id c))"
      and "map_of (contract_fields c v @ more) ''tenant_id'' = Some (JStr (the_tenant req))" for more
      by (simp_all add: contract_fields_def c(3))
    ultimately show ?thesis using c by blast
  qed
  from a b show ?thesis by blast
qed


theorem get_contract_tenant_scoped_witness:
  "fst (get_contract (contract_request ''alice'' ''tenant-a'') contract_world) = Sent not_found
   \<and> (\<exists>res fields. fst (get_contract (contract_request ''bob'' ''tenant-b'') contract_world) = Sent res
         \<and> status res = 200
         \<and> get_prop (payload res) ''contract'' = Some (JObj fields)
         \<and> map_of fields ''tenant_id'' = Some (JStr ''tenant-b''))"
proof -
  have o: "\<forall>c \<in> set (contracts contract_world).
             Some (c_id c) = params_id (contract_request ''alice'' ''tenant-a'')
               \<longrightarrow> c_tenant_id c \<noteq> the_tenant (contract_request ''alice'' ''tenant-a'')"
    by (simp add: contract_world_def contract_request_def demo_request_def the_tenant_def)
  obtain res where r: "fst (get_contract (contract_request ''bob'' ''tenant-b'') contract_world) = Sent res"
    "status res = 200"
    by (simp add: get_contract_def select_contract_def contract_world_def contract_request_def
          demo_request_def the_tenant_def demo_world_def Let_def)
  have t: "the_tenant (contract_request ''bob'' ''tenant-b'') = ''tenant-b''"
    by (simp add: contract_request_def the_tenant_def)
  from get_contract_tenant_scoped [of contract_world "contract_request ''alice'' ''tenant-a''"] o
  have a: "fst (get_contract (contract_request ''alice'' ''tenant-a'') contract_world) = Sent not_found"
    by blast
  from get_contract_tenant_scoped [of contract_world "contract_request ''bob'' ''tenant-b''"] r
  obtain fields where "get_prop (payload res) ''contract'' = Some (JObj fields)"
    "map_of fields ''tenant_id'' = Some (JStr ''tenant-b'')"
    unfolding t by blast
  with a r show ?thesis by blast
qed

lemma in_active_user_rows:
  assumes "(u, t) \<in> set (active_user_rows w uid)"
  shows "u \<in> set (users w) \<and> t \<in> set (tenants w) \<and> uid = Some (user_id u)
       \<and> user_tenant_id u = tenant_id t \<and> user_status u = ''active'' \<and> tenant_status t = ''active''"
  using assms by (auto simp: active_user_rows_def)

lemma authenticate_user:
  assumes "authenticate v req w = (Next req1, w1)"
  shows "\<exists>tok p u t rest. bearer req = Some tok \<and> v tok = Verified p
           \<and> active_user_rows w (userId p) = (u, t) # rest
           \<and> (\<exists>ru. user req1 = Some ru \<and> ru_id ru = user_id u \<and> ru_tenant_id ru = tenant_id t
                    \<and> ru_role ru = user_role u)
           \<and> tenantId req1 = tenantId req"
proof -
  from assms obtain h where h: "authorization req = Some h" "h \<noteq> []" "startsWith h ''Bearer ''"
    by (auto simp: authenticate_def split: option.splits if_splits)
  then have b: "bearer req = Some (drop 7 h)" by (simp add: bearer_def)
  from assms h obtain p where p: "v (drop 7 h) = Verified p"
    by (auto simp: authenticate_def split: jwt_outcome.splits)
  from assms h p obtain u t rest where r: "active_user_rows w (userId p) = (u, t) # rest"
    by (auto simp: authenticate_def Let_def split: list.splits)
  with assms h p have "\<exists>ru. user req1 = Some ru \<and> ru_id ru = user_id u \<and> ru_tenant_id ru = tenant_id t
                         \<and> ru_role ru = user_role u"
    and "tenantId req1 = tenantId req"
    by (auto simp: authenticate_def Let_def)
  then show ?thesis using b p r by blast
qed

text \<open>
  The tenant id that reaches a route is the one of the user row the verified token
  names, with that user and that tenant active (outside development mode, where
  \<open>DEFAULT_TENANT_ID\<close> can stand in for a missing one). Nothing of the body, the query
  string or the parameters of the request enters it.
\<close>

theorem resolved_tenant_is_the_users:
  assumes "before_route e req w = (Inr req3, w3)"
      and "protected_url req"
      and "node_env e \<noteq> Some ''development''"
  shows "\<exists>tok p u ru.
           bearer req = Some tok \<and> jwt_verify e tok = Verified p
           \<and> u \<in> set (users w) \<and> userId p = Some (user_id u) \<and> user_status u = ''active''
           \<and> user req3 = Some ru \<and> ru_id ru = user_id u \<and> ru_role ru = user_role u
           \<and> tenantId req3 = Some (user_tenant_id u)
           \<and> (\<exists>t \<in> set (tenants w). tenant_id t = user_tenant_id u \<and> tenant_status t = ''active'')"
proof -
  from assms(1) obtain req1 w1 req2 w2 where
    a1: "authenticate (jwt_verify e) req w = (Next req1, w1)" and
    tm: "tenantMiddleware (node_env e) (default_tenant_id e) req1 w1 = (Next req2, w2)" and
    a2: "authenticate (jwt_verify e) req2 w2 = (Next req3, w3)"
    by (auto simp: before_route_def split: prod.splits step.splits)
  from authenticate_user [OF a1] obtain tok p u t rest ru where
    b: "bearer req = Some tok" "jwt_verify e tok = Verified p" and
    hd: "active_user_rows w (userId p) = (u, t) # rest" and
    ru: "user req1 = Some ru" "ru_tenant_id ru = tenant_id t"
    by blast
  have ut: "(u, t) \<in> set (active_user_rows w (userId p))" by (simp add: hd)
  note f = in_active_user_rows [OF ut]
  from authenticate_Next [OF a1] have url: "originalUrl req1 = originalUrl req" by auto
  with assms(2) have nu: "\<not> startsWith (originalUrl req1) ''/api/v1/auth''"
    by (simp add: protected_url_def)
  from tm nu ru assms(3) have t2: "tenantId req2 = Some (tenant_id t)"
    by (auto simp: tenantMiddleware_def Let_def split: option.splits if_splits list.splits
             dest!: filter_head)
  from authenticate_Next [OF a1] have w1: "users w1 = users w" "tenants w1 = tenants w"
    by (auto simp: emit_def)
  from tenantMiddleware_Next [OF tm] nu have w2: "users w2 = users w1" "tenants w2 = tenants w1"
    by (auto simp: emit_def protected_url_def)
  from authenticate_Next [OF a1] have breq1: "bearer req1 = bearer req" by (auto simp: bearer_def)
  from tenantMiddleware_Next [OF tm] nu have breq2: "bearer req2 = bearer req1"
    by (auto simp: bearer_def protected_url_def)
  have rows: "active_user_rows w2 uid = active_user_rows w uid" for uid
    by (simp add: active_user_rows_def w1 w2)
  from authenticate_user [OF a2] obtain tok' p' u' t' rest' ru' where
    b': "bearer req2 = Some tok'" "jwt_verify e tok' = Verified p'" and
    hd': "active_user_rows w2 (userId p') = (u', t') # rest'" and
    ru': "user req3 = Some ru'" "ru_id ru' = user_id u'" "ru_role ru' = user_role u'" and
    t3: "tenantId req3 = tenantId req2"
    by blast
  from b b' breq1 breq2 have "p' = p" by simp
  with hd' hd have same: "u' = u" by (simp add: rows)
  have "tenantId req3 = Some (user_tenant_id u)" using t3 t2 f by simp
  moreover have "\<exists>t \<in> set (tenants w). tenant_id t = user_tenant_id u \<and> tenant_status t = ''active''"
    using f by auto
  ultimately show ?thesis
    using b f ru' same by blast
qed


theorem resolved_tenant_is_the_users_witness:
  "tenantId (as_alice integration_request) = Some ''tenant-a''
   \<and> (\<exists>u \<in> set (users demo_world). user_id u = ''user-a'' \<and> user_tenant_id u = ''tenant-a'')"
proof -
  have br: "before_route demo_env integration_request demo_world
              = (Inr (as_alice integration_request), routed demo_world)"
    unfolding integration_request_def
    by (rule before_route_alice) (simp_all add: startsWith_def demo_env_def)
  have pu: "protected_url integration_request"
    by (simp add: protected_url_def integration_request_def demo_request_def startsWith_def)
  have ne: "node_env demo_env \<noteq> Some ''development''" by (simp add: demo_env_def)
  have tok: "bearer integration_request = Some ''alice''"
    by (simp add: bearer_def integration_request_def demo_request_def startsWith_def)
  have v: "jwt_verify demo_env ''alice'' = Verified \<lparr>userId = Some ''user-a''\<rparr>"
    by (simp add: demo_env_def demo_verify_def)
  from resolved_tenant_is_the_users [OF br pu ne] obtain tok' p u where
    "bearer integration_request = Some tok'" "jwt_verify demo_env tok' = Verified p"
    "u \<in> set (users demo_world)" "userId p = Some (user_id u)"
    "tenantId (as_alice integration_request) = Some (user_tenant_id u)"
    by blast
  with tok v have "u \<in> set (users demo_world)" "user_id u = ''user-a''"
    "tenantId (as_alice integration_request) = Some (user_tenant_id u)"
    by auto
  moreover have "tenantId (as_alice integration_request) = Some ''tenant-a''"
    by (simp add: as_alice_def)
  ultimately show ?thesis by auto
qed

text \<open>
  Against the NOT NULL constraint of \<open>schema.sql\<close> on \<open>integration_id\<close>,
  \<open>syncPOToERP\<close> as written throws on every call, after it has marked the order
  \<open>synced\<close> and without writing a sync log; the manual sync then never answers 200.
\<close>

theorem sync_log_rejected_by_schema:
  assumes "log_rejects se = schema_log_rejects" and "erp_call se i sys = None"
  shows "fst (syncPOToERP se i sys w)
           = Some ''null value in column integration_id violates not-null constraint''
       \<and> purchase_orders (snd (syncPOToERP se i sys w)) = map (set_synced i) (purchase_orders w)
       \<and> integration_sync_logs (snd (syncPOToERP se i sys w)) = integration_sync_logs w
       \<and> (\<forall>se' req res w2. log_rejects se' = schema_log_rejects
             \<and> sync_purchase_order se' req w = (Sent res, w2) \<longrightarrow> status res \<noteq> 200)"
proof -
  have r: "schema_log_rejects success_log
             = Some ''null value in column integration_id violates not-null constraint''"
    by (simp add: schema_log_rejects_def success_log_def)
  have "status res \<noteq> 200"
    if "log_rejects se' = schema_log_rejects" "sync_purchase_order se' req w = (Sent res, w2)"
    for se' req res w2
    using that
    by (auto simp: sync_purchase_order_def syncPOToERP_def Let_def r
             split: list.splits if_splits prod.splits option.splits)
  then have route: "\<forall>se' req res w2. log_rejects se' = schema_log_rejects
             \<and> sync_purchase_order se' req w = (Sent res, w2) \<longrightarrow> status res \<noteq> 200"
    by blast
  have "fst (syncPOToERP se i sys w)
           = Some ''null value in column integration_id violates not-null constraint''
       \<and> purchase_orders (snd (syncPOToERP se i sys w)) = map (set_synced i) (purchase_orders w)
       \<and> integration_sync_logs (snd (syncPOToERP se i sys w)) = integration_sync_logs w"
    using assms by (simp add: syncPOToERP_def Let_def r emit_def)
  with route show ?thesis by blast
qed

theorem sync_log_rejected_by_schema_witness:
  "fst (syncPOToERP demo_sync_env demo_po_id (JStr ''SAP'') w_created)
     = Some ''null value in column integration_id violates not-null constraint''
   \<and> map po_erp_sync_status
        (purchase_orders (snd (syncPOToERP demo_sync_env demo_po_id (JStr ''SAP'') w_created)))
       = [Some ''synced'']"
proof -
  have l: "log_rejects demo_sync_env = schema_log_rejects"
    and e: "erp_call demo_sync_env demo_po_id (JStr ''SAP'') = None"
    by (simp_all add: demo_sync_env_def)
  have "map po_erp_sync_status (map (set_synced demo_po_id) (purchase_orders w_created)) = [Some ''synced'']"
    by (simp add: created_orders set_synced_def)
  with sync_log_rejected_by_schema [OF l e, of w_created] show ?thesis by simp
qed

end
